theory Spec2Isabelle
  imports Main
begin

section \<open>Source types (src/type.ts)\<close>

text \<open>
  The classes of \<^verbatim>\<open>type.ts\<close> as one datatype. \<^verbatim>\<open>PrimitiveType\<close> objects are singular
  instances, one per name, so the reference comparisons \<^verbatim>\<open>type === INT\<close> and
  \<^verbatim>\<open>type === FLOAT\<close> of the backend are comparisons of the name. An \<^verbatim>\<open>InstanceType\<close>
  holds its \<^verbatim>\<open>ParameterizedType\<close> constructor (a name) and its argument.
\<close>

datatype Type =
    PrimitiveType string
  | FunType "Type list" Type
  | CodeType Type
  | AnyType
  | VoidType
  | ParameterizedType string
  | InstanceType string Type

definition INT' :: Type where
  "INT' = PrimitiveType ''Int''"

definition FLOAT :: Type where
  "FLOAT = PrimitiveType ''Float''"

section \<open>LLVM types, as the llvmc binding builds them\<close>

text \<open>
  \<^verbatim>\<open>llvm.IntType.int32()\<close> is \<open>IntType 32\<close>, \<^verbatim>\<open>llvm.FloatType.double()\<close> is \<open>DoubleType\<close>,
  \<^verbatim>\<open>llvm.PointerType.create(t, a)\<close> is \<open>PointerType t a\<close>,
  \<^verbatim>\<open>llvm.StructType.create(ts, packed)\<close> is \<open>StructType ts packed\<close> and
  \<^verbatim>\<open>llvm.FunctionType.create(ret, args)\<close> is \<open>FunctionType ret args\<close>.
\<close>

datatype lltype =
    IntType nat
  | DoubleType
  | VoidTy
  | PointerType lltype nat
  | StructType "lltype list" bool
  | FunctionType lltype "lltype list"

definition ptr_t :: lltype where
  "ptr_t = PointerType (IntType 8) 0"

definition int_t :: lltype where
  "int_t = IntType 32"

definition void_t :: lltype where
  "void_t = VoidTy"

section \<open>Errors\<close>

text \<open>
  The backend throws strings; each constructor stands for the throw sites with one
  message, named after the error taxonomy of the specification. \<open>JSTypeError\<close> is the
  \<^verbatim>\<open>TypeError\<close> that JavaScript raises when a property of \<^verbatim>\<open>undefined\<close> is read
  (a missing \<^verbatim>\<open>type_table\<close> entry that is indexed or destructured, a missing scope
  whose fields are read) or that the binding raises on an \<^verbatim>\<open>undefined\<close> value.
\<close>

datatype error =
    UnsupportedType Type        \<comment> \<open>"Unsupported type in LLVM backend: "\<close>
  | NotImplemented string       \<comment> \<open>"not implemented", "... not implemented yet", "visit ... not implemented"\<close>
  | UnknownVariable             \<comment> \<open>"Unknown variable name (lookup)", "Unknown variable name (assign helper)"\<close>
  | UnknownScope nat            \<comment> \<open>"scope id ... not found"\<close>
  | UnknownFunction             \<comment> \<open>"Unknown function"\<close>
  | UnrecognizedType            \<comment> \<open>"Unrecognized Type"\<close>
  | IncompatibleOperand         \<comment> \<open>"Incompatible Operand"\<close>
  | IncompatibleOperands        \<comment> \<open>"Incompatible Operands"\<close>
  | UnknownUnaryOp              \<comment> \<open>"Unknown unary op"\<close>
  | UnknownBinaryOp             \<comment> \<open>"Unknown bin op"\<close>
  | JSTypeError

section \<open>Type lowering\<close>

text \<open>
  \<^verbatim>\<open>llvm_type\<close>. The loop over \<^verbatim>\<open>type.params\<close> is \<open>llvm_types\<close>; it stops at the first
  parameter whose lowering throws. The parameters are lowered before the return type.
\<close>

fun llvm_type :: "Type \<Rightarrow> error + lltype"
  and llvm_types :: "Type list \<Rightarrow> error + lltype list" where
  "llvm_type (PrimitiveType n) =
     (if PrimitiveType n = INT' then Inr (IntType 32)
      else if PrimitiveType n = FLOAT then Inr DoubleType
      else Inl (UnsupportedType (PrimitiveType n)))"
| "llvm_type (FunType ps r) =
     (case llvm_types ps of
        Inl err \<Rightarrow> Inl err
      | Inr arg_types \<Rightarrow>
          (case llvm_type r of
             Inl err \<Rightarrow> Inl err
           | Inr ret_type \<Rightarrow>
               Inr (StructType
                     [PointerType (FunctionType ret_type (arg_types @ [PointerType (IntType 8) 0])) 0,
                      PointerType (IntType 8) 0] True)))"
| "llvm_type (CodeType inner) =
     (case llvm_type inner of
        Inl err \<Rightarrow> Inl err
      | Inr ret_type \<Rightarrow>
          Inr (StructType
                [PointerType (FunctionType ret_type [PointerType (IntType 8) 0]) 0,
                 PointerType (IntType 8) 0] True))"
| "llvm_type AnyType = Inl (UnsupportedType AnyType)"
| "llvm_type VoidType = Inl (UnsupportedType VoidType)"
| "llvm_type (ParameterizedType n) = Inl (UnsupportedType (ParameterizedType n))"
| "llvm_type (InstanceType c a) = Inl (UnsupportedType (InstanceType c a))"
| "llvm_types [] = Inr []"
| "llvm_types (t # ts) =
     (case llvm_type t of
        Inl err \<Rightarrow> Inl err
      | Inr lt \<Rightarrow>
          (case llvm_types ts of
             Inl err \<Rightarrow> Inl err
           | Inr lts \<Rightarrow> Inr (lt # lts)))"

section \<open>Syntax trees and the compiler IR\<close>

text \<open>
  The syntax nodes the visitor dispatches on, each with its \<^verbatim>\<open>id\<close>. Only the fields
  this backend reads are kept: the bodies of quotes and functions are lifted into Progs
  and Procs before code generation, and the nodes whose rules throw or return a
  placeholder are read no further than their tag. A literal's \<^verbatim>\<open>value\<close> is handed to
  the binding unchanged.
\<close>

datatype literal_value = NumberValue int | StringValue string

datatype SyntaxNode =
    LiteralNode nat string literal_value
  | SeqNode nat SyntaxNode SyntaxNode
  | LetNode nat SyntaxNode
  | AssignNode nat SyntaxNode
  | LookupNode nat
  | UnaryNode nat string SyntaxNode
  | BinaryNode nat string SyntaxNode SyntaxNode
  | QuoteNode nat
  | EscapeNode nat
  | RunNode nat SyntaxNode
  | FunNode nat
  | CallNode nat SyntaxNode "SyntaxNode list"
  | ExternNode nat
  | PersistNode nat
  | IfNode nat
  | WhileNode nat
  | MacroCallNode nat
  | AllocNode nat
  | TupleNode nat
  | TupleIndexNode nat
  | TypeAliasNode nat
  | RootNode nat "SyntaxNode list"

fun node_id :: "SyntaxNode \<Rightarrow> nat" where
  "node_id (LiteralNode i t v) = i"
| "node_id (SeqNode i l r) = i"
| "node_id (LetNode i x) = i"
| "node_id (AssignNode i x) = i"
| "node_id (LookupNode i) = i"
| "node_id (UnaryNode i opr x) = i"
| "node_id (BinaryNode i opr l r) = i"
| "node_id (QuoteNode i) = i"
| "node_id (EscapeNode i) = i"
| "node_id (RunNode i x) = i"
| "node_id (FunNode i) = i"
| "node_id (CallNode i f args) = i"
| "node_id (ExternNode i) = i"
| "node_id (PersistNode i) = i"
| "node_id (IfNode i) = i"
| "node_id (WhileNode i) = i"
| "node_id (MacroCallNode i) = i"
| "node_id (AllocNode i) = i"
| "node_id (TupleNode i) = i"
| "node_id (TupleIndexNode i) = i"
| "node_id (TypeAliasNode i) = i"
| "node_id (RootNode i cs) = i"

text \<open>
  A \<^verbatim>\<open>ProgEscape\<close> is read only for its \<^verbatim>\<open>id\<close>. \<^verbatim>\<open>Proc\<close> and \<^verbatim>\<open>Prog\<close> extend \<^verbatim>\<open>Scope\<close>;
  the entry Proc has \<^verbatim>\<open>id === null\<close>. The tables of the IR are JavaScript arrays
  indexed by id, where a missing entry reads as \<^verbatim>\<open>undefined\<close>: partial maps. Of a
  \<^verbatim>\<open>type_table\<close> entry, a pair, only the type is read.
\<close>

datatype ProgEscape = ProgEscape (escape_id: nat)

record Scope =
  id' :: "nat option"
  body :: SyntaxNode
  free :: "nat list"
  bound :: "nat list"
  persist :: "ProgEscape list"
  children :: "nat list"

record Proc = Scope +
  params :: "nat list"

record Prog = Scope +
  owned_persist :: "ProgEscape list"

record Variant =
  variant_procs :: "nat \<rightharpoonup> Proc"
  variant_progs :: "nat \<rightharpoonup> Prog"

record CompilerIR =
  procs :: "nat \<rightharpoonup> Proc"
  progs :: "nat \<rightharpoonup> Prog"
  main :: Proc
  type_table :: "nat \<rightharpoonup> Type"
  defuse :: "nat \<rightharpoonup> nat"
  externs :: "nat \<rightharpoonup> string"

section \<open>The LLVM module under construction\<close>

text \<open>
  Modelled from the spec: the symbol helpers \<^verbatim>\<open>varsym\<close>, \<^verbatim>\<open>procsym\<close> and \<^verbatim>\<open>progsym\<close> of
  \<^verbatim>\<open>emitutil\<close>, which is not among the sources. The specification fixes that they
  name a variable, Proc or Prog after its id; they are kept symbolic. \<^verbatim>\<open>progsym\<close>
  takes \<^verbatim>\<open>prog.id\<close> as it is, \<^verbatim>\<open>null\<close> included.
\<close>

datatype symbol = Name string | varsym nat | procsym nat | progsym "nat option"

text \<open>
  Values of the binding. \<open>Function f\<close> is the function at index \<open>f\<close> of the module,
  \<open>Param f i\<close> is \<^verbatim>\<open>func.getParam(i)\<close>, \<open>Inst n\<close> is the value of the instruction
  numbered \<open>n\<close>, and \<open>Null\<close> is the \<^verbatim>\<open>null\<close> that \<^verbatim>\<open>mod.getFunction\<close> gives for
  a name the module does not have.
\<close>

datatype llvalue =
    ConstInt literal_value lltype
  | ConstFloat literal_value lltype
  | ConstString literal_value bool
  | Undef lltype
  | Function nat
  | Param nat nat
  | Inst nat
  | Null

datatype instr =
    Alloca lltype symbol
  | Store llvalue llvalue
  | Load llvalue symbol
  | InsertValue llvalue llvalue nat symbol
  | BitCast llvalue lltype symbol
  | StructGEP llvalue nat symbol
  | Call llvalue "llvalue list" symbol
  | Ret llvalue
  | RetVoid
  | Neg llvalue symbol
  | FNeg llvalue symbol
  | Add llvalue llvalue symbol
  | Mul llvalue llvalue symbol
  | FAdd llvalue llvalue symbol
  | FMul llvalue llvalue symbol
  | SIToFP llvalue lltype symbol

text \<open>
  A function of the module: its name, its type and its entry block, the only block the
  backend ever appends (\<open>None\<close> for a bare declaration). Instructions are numbered as
  they are built.
\<close>

record llfunction =
  fn_name :: symbol
  fn_type :: lltype
  fn_entry :: "(nat \<times> instr) list option"

section \<open>The emitter\<close>

text \<open>
  The fields of \<^verbatim>\<open>LLVMEmitter\<close>. \<^verbatim>\<open>builder\<close> and \<^verbatim>\<open>named_values\<close> hold references: a
  builder object and an array object, so that "the same object" is equality of
  references. The function-valued fields \<^verbatim>\<open>emit_expr\<close>, \<^verbatim>\<open>emit_proc\<close> and \<^verbatim>\<open>emit_prog\<close>
  are bound once by \<^verbatim>\<open>codegen\<close> to the visitor over \<^verbatim>\<open>compile_rules\<close>, \<^verbatim>\<open>emit_proc\<close> and
  \<^verbatim>\<open>emit_prog\<close>; the model calls these directly.

  \<open>state\<close> adds the heap the references point into: the block each builder is
  positioned at (a function index, \<open>None\<close> before \<^verbatim>\<open>positionAtEnd\<close>), the builders
  already freed, the contents of each array, the next fresh reference and the next
  instruction number.
\<close>

record LLVMEmitter =
  mod' :: "llfunction list"
  builder :: nat
  named_values :: nat
  ir :: CompilerIR
  variant :: "Variant option"

record state = LLVMEmitter +
  builder_pos :: "nat \<Rightarrow> nat option"
  builder_freed :: "nat \<Rightarrow> bool"
  arrays :: "nat \<Rightarrow> (nat \<rightharpoonup> llvalue)"
  next_ref :: nat
  next_inst :: nat

type_synonym 'a res = "(error + 'a) \<times> state"

subsection \<open>Operations of the binding\<close>

definition append_instr :: "nat \<Rightarrow> nat \<times> instr \<Rightarrow> llfunction list \<Rightarrow> llfunction list" where
  "append_instr f x fs =
     (if f < length fs
      then fs[f := (fs ! f)\<lparr>fn_entry := map_option (\<lambda>b. b @ [x]) (fn_entry (fs ! f))\<rparr>]
      else fs)"

text \<open>
  A \<^verbatim>\<open>build...\<close> call on builder \<open>b\<close>: the instruction is created and appended to the
  block the builder is positioned at; a builder without insertion point creates the
  instruction and inserts it nowhere.
\<close>

definition build :: "nat \<Rightarrow> instr \<Rightarrow> state \<Rightarrow> llvalue \<times> state" where
  "build b i s =
     (let n = next_inst s in
      (Inst n,
       (case builder_pos s b of
          None \<Rightarrow> s\<lparr>next_inst := Suc n\<rparr>
        | Some f \<Rightarrow> s\<lparr>mod' := append_instr f (n, i) (mod' s), next_inst := Suc n\<rparr>)))"

text \<open>\<^verbatim>\<open>mod.addFunction(name, type)\<close>: a new function at the end of the module.\<close>

definition addFunction :: "symbol \<Rightarrow> lltype \<Rightarrow> state \<Rightarrow> nat \<times> state" where
  "addFunction name ty s =
     (length (mod' s),
      s\<lparr>mod' := mod' s @ [\<lparr>fn_name = name, fn_type = ty, fn_entry = None\<rparr>]\<rparr>)"

fun find_function :: "llfunction list \<Rightarrow> symbol \<Rightarrow> nat \<Rightarrow> nat option" where
  "find_function [] name i = None"
| "find_function (f # fs) name i =
     (if fn_name f = name then Some i else find_function fs name (Suc i))"

text \<open>\<^verbatim>\<open>mod.getFunction(name)\<close>: the function of that name, or null.\<close>

definition getFunction :: "symbol \<Rightarrow> state \<Rightarrow> llvalue" where
  "getFunction name s =
     (case find_function (mod' s) name 0 of None \<Rightarrow> Null | Some f \<Rightarrow> Function f)"

text \<open>\<^verbatim>\<open>mod.getOrInsertFunction(name, type)\<close>: the function of that name, declared if new.\<close>

definition getOrInsertFunction :: "symbol \<Rightarrow> lltype \<Rightarrow> state \<Rightarrow> nat \<times> state" where
  "getOrInsertFunction name ty s =
     (case find_function (mod' s) name 0 of
        Some f \<Rightarrow> (f, s)
      | None \<Rightarrow> addFunction name ty s)"

text \<open>\<^verbatim>\<open>func.appendBasicBlock("entry")\<close>.\<close>

definition appendBasicBlock :: "nat \<Rightarrow> state \<Rightarrow> state" where
  "appendBasicBlock f s =
     (if f < length (mod' s)
      then s\<lparr>mod' := (mod' s)[f := (mod' s ! f)\<lparr>fn_entry :=
               (case fn_entry (mod' s ! f) of None \<Rightarrow> Some [] | Some b \<Rightarrow> Some b)\<rparr>]\<rparr>
      else s)"

text \<open>\<^verbatim>\<open>llvm.Builder.create()\<close> followed by \<^verbatim>\<open>positionAtEnd\<close> of a function's entry block.\<close>

definition Builder_create :: "state \<Rightarrow> nat \<times> state" where
  "Builder_create s =
     (next_ref s,
      s\<lparr>builder_pos := (builder_pos s)(next_ref s := None),
        builder_freed := (builder_freed s)(next_ref s := False),
        next_ref := Suc (next_ref s)\<rparr>)"

definition positionAtEnd :: "nat \<Rightarrow> nat \<Rightarrow> state \<Rightarrow> state" where
  "positionAtEnd b f s = s\<lparr>builder_pos := (builder_pos s)(b \<mapsto> f)\<rparr>"

definition Builder_free :: "nat \<Rightarrow> state \<Rightarrow> state" where
  "Builder_free b s = s\<lparr>builder_freed := (builder_freed s)(b := True)\<rparr>"

text \<open>A fresh empty array (\<^verbatim>\<open>[]\<close>), and a write \<^verbatim>\<open>emitter.named_values[id] = ptr\<close>.\<close>

definition new_array :: "state \<Rightarrow> nat \<times> state" where
  "new_array s =
     (next_ref s,
      s\<lparr>arrays := (arrays s)(next_ref s := Map.empty), next_ref := Suc (next_ref s)\<rparr>)"

definition named_values_get :: "state \<Rightarrow> nat \<Rightarrow> llvalue option" where
  "named_values_get s i = arrays s (named_values s) i"

definition named_values_set :: "nat \<Rightarrow> llvalue \<Rightarrow> state \<Rightarrow> state" where
  "named_values_set i ptr s =
     s\<lparr>arrays := (arrays s)(named_values s := (arrays s (named_values s))(i \<mapsto> ptr))\<rparr>"

text \<open>
  \<^verbatim>\<open>array[id]\<close> where the index itself may be \<^verbatim>\<open>undefined\<close> (the result of a failed
  \<^verbatim>\<open>defuse\<close> lookup): reading at \<^verbatim>\<open>undefined\<close> gives \<^verbatim>\<open>undefined\<close>.
\<close>

fun index :: "(nat \<rightharpoonup> 'a) \<Rightarrow> nat option \<Rightarrow> 'a option" where
  "index a None = None"
| "index a (Some i) = a i"

subsection \<open>Types of ids\<close>

text \<open>The expression \<^verbatim>\<open>llvm_type(emitter.ir.type_table[id][0])\<close>.\<close>

definition llvm_type_of_id :: "CompilerIR \<Rightarrow> nat \<Rightarrow> error + lltype" where
  "llvm_type_of_id c i =
     (case type_table c i of None \<Rightarrow> Inl JSTypeError | Some t \<Rightarrow> llvm_type t)"

text \<open>The loop \<^verbatim>\<open>for (let id of ids) types.push(llvm_type(emitter.ir.type_table[id][0]))\<close>.\<close>

fun llvm_types_of_ids :: "CompilerIR \<Rightarrow> nat list \<Rightarrow> error + lltype list" where
  "llvm_types_of_ids c [] = Inr []"
| "llvm_types_of_ids c (i # is) =
     (case llvm_type_of_id c i of
        Inl err \<Rightarrow> Inl err
      | Inr lt \<Rightarrow>
          (case llvm_types_of_ids c is of
             Inl err \<Rightarrow> Inl err
           | Inr lts \<Rightarrow> Inr (lt # lts)))"

definition get_env_type :: "state \<Rightarrow> 'a Scope_scheme \<Rightarrow> error + lltype" where
  "get_env_type s scope =
     (case llvm_types_of_ids (ir s) (free scope) of
        Inl err \<Rightarrow> Inl err
      | Inr free_types \<Rightarrow> Inr (StructType free_types True))"

definition get_func_type :: "state \<Rightarrow> nat \<Rightarrow> nat list \<Rightarrow> error + (lltype \<times> lltype list)" where
  "get_func_type s ret_id arg_ids =
     (case llvm_type_of_id (ir s) ret_id of
        Inl err \<Rightarrow> Inl err
      | Inr ret_type \<Rightarrow>
          (case llvm_types_of_ids (ir s) arg_ids of
             Inl err \<Rightarrow> Inl err
           | Inr arg_types \<Rightarrow> Inr (ret_type, arg_types @ [PointerType (IntType 8) 0])))"

subsection \<open>The runtime prelude\<close>

definition runtime_declarations :: "(string \<times> lltype \<times> lltype list) list" where
  "runtime_declarations =
     [(''mesh_indices'', int_t, [ptr_t]),
      (''mesh_positions'', int_t, [ptr_t]),
      (''mesh_normals'', int_t, [ptr_t]),
      (''get_shader'', int_t, [ptr_t, ptr_t]),
      (''draw_mesh'', void_t, [int_t, int_t]),
      (''print_mesh'', void_t, [ptr_t]),
      (''gl_buffer'', int_t, [int_t, ptr_t, ptr_t]),
      (''detect_error'', void_t, []),
      (''load_obj'', ptr_t, [ptr_t, ptr_t]),
      (''create_window'', ptr_t, [])]"

text \<open>One iteration of the loop of \<^verbatim>\<open>emit_runtime_declaration\<close>.\<close>

definition emit_declaration :: "string \<times> lltype \<times> lltype list \<Rightarrow> state \<Rightarrow> state" where
  "emit_declaration d s =
     (case d of (name, ret_type, arg_types) \<Rightarrow>
        (let dummy_args = arg_types @ [ptr_t];
             dummy_func_type = FunctionType ret_type dummy_args;
             actual_func_type = FunctionType ret_type arg_types;
             (decl_func, s1) = getOrInsertFunction (Name name) actual_func_type s;
             (wrapper_func, s2) = addFunction (Name (name @ ''_wrapper'')) dummy_func_type s1;
             s3 = appendBasicBlock wrapper_func s2;
             (new_builder, s4) = Builder_create s3;
             s5 = positionAtEnd new_builder wrapper_func s4;
             pass_on_args = map (Param wrapper_func) [0 ..< length dummy_args - 1];
             (call, s6) = build new_builder (Call (Function decl_func) pass_on_args (Name [])) s5
         in if ret_type \<noteq> void_t
            then snd (build new_builder (Ret call) s6)
            else snd (build new_builder RetVoid s6)))"

fun emit_declarations :: "(string \<times> lltype \<times> lltype list) list \<Rightarrow> state \<Rightarrow> state" where
  "emit_declarations [] s = s"
| "emit_declarations (d # ds) s = emit_declarations ds (emit_declaration d s)"

definition emit_runtime_declaration :: "state \<Rightarrow> state" where
  "emit_runtime_declaration s = emit_declarations runtime_declarations s"

subsection \<open>Variables\<close>

definition assignment_helper :: "state \<Rightarrow> llvalue \<Rightarrow> nat option \<Rightarrow> llvalue res" where
  "assignment_helper s val i =
     (case index (arrays s (named_values s)) i of
        None \<Rightarrow> (Inl UnknownVariable, s)
      | Some ptr \<Rightarrow> (Inr val, snd (build (builder s) (Store val ptr) s)))"

definition emit_extern :: "string \<Rightarrow> Type \<Rightarrow> state \<Rightarrow> llvalue res" where
  "emit_extern name ty s = (Inl (NotImplemented ''not implemented''), s)"

text \<open>
  \<^verbatim>\<open>emit_lookup\<close>, given the id of the lookup node. When \<^verbatim>\<open>defuse\<close> has no entry the
  definition id is \<^verbatim>\<open>undefined\<close>, and so are \<^verbatim>\<open>externs[defid]\<close> and \<^verbatim>\<open>named_values[defid]\<close>.
\<close>

definition emit_lookup :: "state \<Rightarrow> nat \<Rightarrow> llvalue res" where
  "emit_lookup s tree_id =
     (let defid = defuse (ir s) tree_id in
      case index (externs (ir s)) defid of
        Some name \<Rightarrow>
          (case type_table (ir s) tree_id of
             None \<Rightarrow> (Inl JSTypeError, s)
           | Some ty \<Rightarrow> emit_extern name ty s)
      | None \<Rightarrow>
          (case defid of
             None \<Rightarrow> (Inl UnknownVariable, s)
           | Some d \<Rightarrow>
               (case arrays s (named_values s) d of
                  None \<Rightarrow> (Inl UnknownVariable, s)
                | Some ptr \<Rightarrow>
                    (case build (builder s) (Load ptr (varsym d)) s of
                       (v, s1) \<Rightarrow> (Inr v, s1)))))"

subsection \<open>Closures\<close>

text \<open>
  The first loop of \<^verbatim>\<open>pack_env\<close>: load every free variable through its pointer. The
  pointer \<^verbatim>\<open>emitter.named_values[id]\<close> is handed to \<^verbatim>\<open>buildLoad\<close> without a check; for an
  id without an alloca it is \<^verbatim>\<open>undefined\<close>, and the binding raises a \<^verbatim>\<open>TypeError\<close> on it
  before it builds the load.
\<close>

fun load_free_vals :: "nat list \<Rightarrow> state \<Rightarrow> llvalue list res" where
  "load_free_vals [] s = (Inr [], s)"
| "load_free_vals (i # is) s =
     (case arrays s (named_values s) i of
        None \<Rightarrow> (Inl JSTypeError, s)
      | Some p \<Rightarrow>
          (case build (builder s) (Load p (Name [])) s of
             (v, s1) \<Rightarrow>
               (case load_free_vals is s1 of
                  (Inl err, s2) \<Rightarrow> (Inl err, s2)
                | (Inr vs, s2) \<Rightarrow> (Inr (v # vs), s2))))"

text \<open>The second loop of \<^verbatim>\<open>pack_env\<close>: insert value \<open>i\<close> at field \<open>i\<close>.\<close>

fun insert_free_vals :: "llvalue \<Rightarrow> llvalue list \<Rightarrow> nat \<Rightarrow> state \<Rightarrow> llvalue \<times> state" where
  "insert_free_vals env_struct [] i s = (env_struct, s)"
| "insert_free_vals env_struct (v # vs) i s =
     (case build (builder s) (InsertValue env_struct v i (Name [])) s of
        (env_struct1, s1) \<Rightarrow> insert_free_vals env_struct1 vs (Suc i) s1)"

definition pack_env :: "state \<Rightarrow> 'a Scope_scheme \<Rightarrow> llvalue res" where
  "pack_env s scope =
     (case load_free_vals (free scope) s of
        (Inl err, s1) \<Rightarrow> (Inl err, s1)
      | (Inr free_vals, s1) \<Rightarrow>
          (case get_env_type s1 scope of
             Inl err \<Rightarrow> (Inl err, s1)
           | Inr env_type \<Rightarrow>
               (case insert_free_vals (Undef env_type) free_vals 0 s1 of
                  (env_struct, s2) \<Rightarrow>
                    (case build (builder s2) (Alloca env_type (Name ''envptr'')) s2 of
                       (env_struct_ptr, s3) \<Rightarrow>
                         (case build (builder s3) (Store env_struct env_struct_ptr) s3 of
                            (st, s4) \<Rightarrow>
                              (case build (builder s4)
                                      (BitCast env_struct_ptr (PointerType (IntType 8) 0)
                                         (Name ''envptr_hidden'')) s4 of
                                 (env_ptr, s5) \<Rightarrow> (Inr env_ptr, s5)))))))"

text \<open>
  \<^verbatim>\<open>pack_closure\<close>. The scope is a Proc or a Prog; \<open>ps\<close> is \<^verbatim>\<open>(<any>scope).params\<close>, which
  is \<^verbatim>\<open>undefined\<close> (\<open>None\<close>) on a Prog.
\<close>

definition pack_closure :: "state \<Rightarrow> llvalue \<Rightarrow> 'a Scope_scheme \<Rightarrow> nat list option \<Rightarrow> llvalue res" where
  "pack_closure s func scope ps =
     (case pack_env s scope of
        (Inl err, s1) \<Rightarrow> (Inl err, s1)
      | (Inr env_ptr, s1) \<Rightarrow>
          if persist scope \<noteq> [] then (Inl (NotImplemented ''persists not implemented yet''), s1)
          else
            (case get_func_type s1 (node_id (body scope))
                    (case ps of Some p \<Rightarrow> p | None \<Rightarrow> []) of
               Inl err \<Rightarrow> (Inl err, s1)
             | Inr (ret_type, arg_types) \<Rightarrow>
                 (let func_ptr_type = PointerType (FunctionType ret_type arg_types) 0;
                      closure_type = StructType [func_ptr_type, PointerType (IntType 8) 0] True
                  in case build (builder s1) (InsertValue (Undef closure_type) func 0 (Name [])) s1 of
                       (closure1, s2) \<Rightarrow>
                         (case build (builder s2) (InsertValue closure1 env_ptr 1 (Name [])) s2 of
                            (closure2, s3) \<Rightarrow> (Inr closure2, s3)))))"

text \<open>
  \<^verbatim>\<open>emit_quote\<close> and \<^verbatim>\<open>emit_func\<close>, given the id of the node. A missing Prog or Proc is
  \<^verbatim>\<open>undefined\<close>, whose \<^verbatim>\<open>free\<close> is read first by \<^verbatim>\<open>pack_env\<close>.
\<close>

definition emit_quote :: "state \<Rightarrow> nat \<Rightarrow> llvalue res" where
  "emit_quote s tree_id =
     (let func = getFunction (progsym (Some tree_id)) s in
      case progs (ir s) tree_id of
        None \<Rightarrow> (Inl JSTypeError, s)
      | Some prog \<Rightarrow> pack_closure s func prog None)"

definition emit_func :: "state \<Rightarrow> nat \<Rightarrow> llvalue res" where
  "emit_func s tree_id =
     (let func = getFunction (procsym tree_id) s in
      case procs (ir s) tree_id of
        None \<Rightarrow> (Inl JSTypeError, s)
      | Some proc \<Rightarrow> pack_closure s func proc (Some (params proc)))"

definition unpack_closure :: "state \<Rightarrow> lltype \<Rightarrow> llvalue \<Rightarrow> (llvalue \<times> llvalue) \<times> state" where
  "unpack_closure s func_type closure =
     (case build (builder s) (Alloca func_type (Name [])) s of
        (func_struct_ptr, s1) \<Rightarrow>
          (case build (builder s1) (Store closure func_struct_ptr) s1 of
             (st, s2) \<Rightarrow>
               (case build (builder s2) (StructGEP func_struct_ptr 0 (Name [])) s2 of
                  (gep0, s3) \<Rightarrow>
                    (case build (builder s3) (Load gep0 (Name [])) s3 of
                       (func, s4) \<Rightarrow>
                         (case build (builder s4) (StructGEP func_struct_ptr 1 (Name [])) s4 of
                            (gep1, s5) \<Rightarrow>
                              (case build (builder s5) (Load gep1 (Name [])) s5 of
                                 (env, s6) \<Rightarrow> ((func, env), s6)))))))"

subsection \<open>The expression compiler\<close>

text \<open>
  \<^verbatim>\<open>emit\<close> is \<^verbatim>\<open>emitter.emit_expr\<close>, that is \<^verbatim>\<open>ast_visit(compile_rules, tree, emitter)\<close>: one
  equation per rule of \<^verbatim>\<open>compile_rules\<close>, with \<^verbatim>\<open>emit_seq\<close>, \<^verbatim>\<open>emit_let\<close>, \<^verbatim>\<open>emit_assign\<close>,
  \<^verbatim>\<open>emit_call\<close> and \<^verbatim>\<open>emit_run\<close> unfolded where they recurse. \<open>emit_args\<close> is the loop over
  the arguments of a call. \<^verbatim>\<open>useful_pred\<close> of \<^verbatim>\<open>emitutil\<close> is not among the sources and
  is the parameter \<open>up\<close>. A throw leaves the state as it is at the throw.
\<close>

fun emit :: "(SyntaxNode \<Rightarrow> bool) \<Rightarrow> state \<Rightarrow> SyntaxNode \<Rightarrow> llvalue res"
  and emit_args :: "(SyntaxNode \<Rightarrow> bool) \<Rightarrow> state \<Rightarrow> SyntaxNode list \<Rightarrow> llvalue list res" where
  "emit up s (AllocNode i) = (Inr (ConstInt (NumberValue 0) (IntType 32)), s)"
| "emit up s (TupleIndexNode i) = (Inr (ConstInt (NumberValue 0) (IntType 32)), s)"
| "emit up s (TupleNode i) = (Inr (ConstInt (NumberValue 0) (IntType 32)), s)"
| "emit up s (RootNode i []) = (Inl JSTypeError, emit_runtime_declaration s)"
| "emit up s (RootNode i (c # cs)) = emit up (emit_runtime_declaration s) c"
| "emit up s (TypeAliasNode i) = (Inr (ConstInt (NumberValue 0) (IntType 32)), s)"
| "emit up s (LiteralNode i t v) =
     (if t = ''int'' then (Inr (ConstInt v (IntType 32)), s)
      else if t = ''float'' then (Inr (ConstFloat v DoubleType), s)
      else if t = ''string'' then (Inr (ConstString v False), s)
      else (Inl UnrecognizedType, s))"
| "emit up s (SeqNode i lhs rhs) =
     (if up lhs
      then (case emit up s lhs of
              (Inl err, s1) \<Rightarrow> (Inl err, s1)
            | (Inr v, s1) \<Rightarrow> emit up s1 rhs)
      else emit up s rhs)"
| "emit up s (LetNode i x) =
     (case emit up s x of
        (Inl err, s1) \<Rightarrow> (Inl err, s1)
      | (Inr v, s1) \<Rightarrow> assignment_helper s1 v (Some i))"
| "emit up s (AssignNode i x) =
     (let defid = defuse (ir s) i in
      case index (externs (ir s)) defid of
        Some extern \<Rightarrow> (Inl (NotImplemented ''not implemented yet''), s)
      | None \<Rightarrow>
          (case emit up s x of
             (Inl err, s1) \<Rightarrow> (Inl err, s1)
           | (Inr v, s1) \<Rightarrow> assignment_helper s1 v defid))"
| "emit up s (LookupNode i) = emit_lookup s i"
| "emit up s (UnaryNode i opr x) =
     (case emit up s x of
        (Inl err, s1) \<Rightarrow> (Inl err, s1)
      | (Inr val, s1) \<Rightarrow>
          (case type_table (ir s1) (node_id x) of
             None \<Rightarrow> (Inl JSTypeError, s1)
           | Some ty \<Rightarrow>
               if ty = INT' then
                 (if opr = ''-''
                  then (case build (builder s1) (Neg val (Name ''negtmp'')) s1 of
                          (v, s2) \<Rightarrow> (Inr v, s2))
                  else (Inl UnknownUnaryOp, s1))
               else if ty = FLOAT then
                 (if opr = ''-''
                  then (case build (builder s1) (FNeg val (Name ''negtmp'')) s1 of
                          (v, s2) \<Rightarrow> (Inr v, s2))
                  else (Inl UnknownUnaryOp, s1))
               else (Inl IncompatibleOperand, s1)))"
| "emit up s (BinaryNode i opr lhs rhs) =
     (case emit up s lhs of
        (Inl err, s1) \<Rightarrow> (Inl err, s1)
      | (Inr lVal, s1) \<Rightarrow>
          (case emit up s1 rhs of
             (Inl err, s2) \<Rightarrow> (Inl err, s2)
           | (Inr rVal, s2) \<Rightarrow>
               (case type_table (ir s2) (node_id lhs) of
                  None \<Rightarrow> (Inl JSTypeError, s2)
                | Some lType \<Rightarrow>
                    (case type_table (ir s2) (node_id rhs) of
                       None \<Rightarrow> (Inl JSTypeError, s2)
                     | Some rType \<Rightarrow>
                         if lType = INT' \<and> rType = INT' then
                           (if opr = ''+''
                            then (case build (builder s2) (Add lVal rVal (Name ''addtmp'')) s2 of
                                    (v, s3) \<Rightarrow> (Inr v, s3))
                            else if opr = ''*''
                            then (case build (builder s2) (Mul lVal rVal (Name ''multmp'')) s2 of
                                    (v, s3) \<Rightarrow> (Inr v, s3))
                            else (Inl UnknownBinaryOp, s2))
                         else if (lType \<noteq> FLOAT \<and> lType \<noteq> INT') \<or> (rType \<noteq> FLOAT \<and> rType \<noteq> INT')
                         then (Inl IncompatibleOperands, s2)
                         else
                           (case (if lType \<noteq> FLOAT
                                  then build (builder s2) (SIToFP lVal DoubleType (Name ''lCast'')) s2
                                  else (lVal, s2)) of
                              (lVal1, s3) \<Rightarrow>
                                (case (if rType \<noteq> FLOAT
                                       then build (builder s3) (SIToFP rVal DoubleType (Name ''lCast'')) s3
                                       else (rVal, s3)) of
                                   (rVal1, s4) \<Rightarrow>
                                     if opr = ''+''
                                     then (case build (builder s4) (FAdd lVal1 rVal1 (Name ''addtmp'')) s4 of
                                             (v, s5) \<Rightarrow> (Inr v, s5))
                                     else if opr = ''*''
                                     then (case build (builder s4) (FMul lVal1 rVal1 (Name ''multmp'')) s4 of
                                             (v, s5) \<Rightarrow> (Inr v, s5))
                                     else (Inl UnknownBinaryOp, s4)))))))"
| "emit up s (QuoteNode i) = emit_quote s i"
| "emit up s (EscapeNode i) = (Inl (NotImplemented ''visit escape not implemented''), s)"
| "emit up s (RunNode i x) =
     (case llvm_type_of_id (ir s) (node_id x) of
        Inl err \<Rightarrow> (Inl err, s)
      | Inr func_type \<Rightarrow>
          (case emit up s x of
             (Inl err, s1) \<Rightarrow> (Inl err, s1)
           | (Inr closure, s1) \<Rightarrow>
               if closure = Null then (Inl UnknownFunction, s1)
               else
                 (case unpack_closure s1 func_type closure of
                    ((func, env), s2) \<Rightarrow>
                      (case build (builder s2) (Call func [env] (Name ''calltmp'')) s2 of
                         (v, s3) \<Rightarrow> (Inr v, s3)))))"
| "emit up s (FunNode i) = emit_func s i"
| "emit up s (CallNode i f args) =
     (case llvm_type_of_id (ir s) (node_id f) of
        Inl err \<Rightarrow> (Inl err, s)
      | Inr func_type \<Rightarrow>
          (case emit up s f of
             (Inl err, s1) \<Rightarrow> (Inl err, s1)
           | (Inr closure, s1) \<Rightarrow>
               if closure = Null then (Inl UnknownFunction, s1)
               else
                 (case unpack_closure s1 func_type closure of
                    ((func, env), s2) \<Rightarrow>
                      (case emit_args up s2 args of
                         (Inl err, s3) \<Rightarrow> (Inl err, s3)
                       | (Inr llvm_args, s3) \<Rightarrow>
                           (case build (builder s3) (Call func (llvm_args @ [env]) (Name ''calltmp'')) s3 of
                              (v, s4) \<Rightarrow> (Inr v, s4))))))"
| "emit up s (ExternNode i) = (Inl (NotImplemented ''visit extern not implemented''), s)"
| "emit up s (PersistNode i) = (Inl (NotImplemented ''visit persist not implemented''), s)"
| "emit up s (IfNode i) = (Inl (NotImplemented ''visit if not implemented''), s)"
| "emit up s (WhileNode i) = (Inl (NotImplemented ''visit while not implemented''), s)"
| "emit up s (MacroCallNode i) = (Inl (NotImplemented ''visit macrocall not implemented''), s)"
| "emit_args up s [] = (Inr [], s)"
| "emit_args up s (a # as) =
     (case emit up s a of
        (Inl err, s1) \<Rightarrow> (Inl err, s1)
      | (Inr v, s1) \<Rightarrow>
          (case emit_args up s1 as of
             (Inl err, s2) \<Rightarrow> (Inl err, s2)
           | (Inr vs, s2) \<Rightarrow> (Inr (v # vs), s2)))"

subsection \<open>The scope compiler\<close>

text \<open>The three loops of \<^verbatim>\<open>emit_fun\<close>: over the arguments, the free ids and the local ids.\<close>

fun alloca_args :: "nat \<Rightarrow> nat list \<Rightarrow> lltype list \<Rightarrow> nat \<Rightarrow> state \<Rightarrow> state" where
  "alloca_args func [] arg_types i s = s"
| "alloca_args func (a # as) arg_types i s =
     (case build (builder s) (Alloca (arg_types ! i) (varsym a)) s of
        (ptr, s1) \<Rightarrow>
          (case build (builder s1) (Store (Param func i) ptr) s1 of
             (st, s2) \<Rightarrow> alloca_args func as arg_types (Suc i) (named_values_set a ptr s2)))"

fun unpack_free :: "llvalue \<Rightarrow> nat list \<Rightarrow> lltype list \<Rightarrow> nat \<Rightarrow> state \<Rightarrow> state" where
  "unpack_free env_ptr [] free_types i s = s"
| "unpack_free env_ptr (a # as) free_types i s =
     (case build (builder s) (Alloca (free_types ! i) (varsym a)) s of
        (ptr, s1) \<Rightarrow>
          (case build (builder s1) (StructGEP env_ptr i (Name [])) s1 of
             (struct_elem_ptr, s2) \<Rightarrow>
               (case build (builder s2) (Load struct_elem_ptr (Name [])) s2 of
                  (elem, s3) \<Rightarrow>
                    (case build (builder s3) (Store elem ptr) s3 of
                       (st, s4) \<Rightarrow>
                         unpack_free env_ptr as free_types (Suc i) (named_values_set a ptr s4)))))"

fun alloca_locals :: "nat list \<Rightarrow> state \<Rightarrow> unit res" where
  "alloca_locals [] s = (Inr (), s)"
| "alloca_locals (a # as) s =
     (case llvm_type_of_id (ir s) a of
        Inl err \<Rightarrow> (Inl err, s)
      | Inr ty \<Rightarrow>
          (case build (builder s) (Alloca ty (varsym a)) s of
             (ptr, s1) \<Rightarrow> alloca_locals as (named_values_set a ptr s1)))"

definition emit_fun ::
  "(SyntaxNode \<Rightarrow> bool) \<Rightarrow> state \<Rightarrow> symbol \<Rightarrow> nat list \<Rightarrow> nat list \<Rightarrow> nat list \<Rightarrow> SyntaxNode
     \<Rightarrow> llvalue res" where
  "emit_fun up s name arg_ids free_ids local_ids bdy =
     (case get_func_type s (node_id bdy) arg_ids of
        Inl err \<Rightarrow> (Inl err, s)
      | Inr (ret_type, arg_types) \<Rightarrow>
          (case addFunction name (FunctionType ret_type arg_types) s of
             (func, s1) \<Rightarrow>
               (case Builder_create (appendBasicBlock func s1) of
                  (new_builder, s2) \<Rightarrow>
                    (let s3 = positionAtEnd new_builder func s2;
                         old_builder = builder s3;
                         s4 = s3\<lparr>builder := new_builder\<rparr>;
                         old_named_values = named_values s4
                     in case new_array s4 of
                          (arr, s5) \<Rightarrow>
                            (let s6 = alloca_args func arg_ids arg_types 0 (s5\<lparr>named_values := arr\<rparr>)
                             in case llvm_types_of_ids (ir s6) free_ids of
                                  Inl err \<Rightarrow> (Inl err, s6)
                                | Inr free_types \<Rightarrow>
                                    (case build (builder s6)
                                            (BitCast (Param func (length arg_ids))
                                               (PointerType (StructType free_types True) 0) (Name [])) s6 of
                                       (env_ptr, s7) \<Rightarrow>
                                         (case alloca_locals local_ids
                                                 (unpack_free env_ptr free_ids free_types 0 s7) of
                                            (Inl err, s8) \<Rightarrow> (Inl err, s8)
                                          | (Inr u, s8) \<Rightarrow>
                                              (case emit up s8 bdy of
                                                 (Inl err, s9) \<Rightarrow> (Inl err, s9)
                                               | (Inr body_val, s9) \<Rightarrow>
                                                   (let s10 = snd (build (builder s9) (Ret body_val) s9);
                                                        s11 = Builder_free (builder s10) s10
                                                    in (Inr (Function func),
                                                        s11\<lparr>builder := old_builder,
                                                            named_values := old_named_values\<rparr>))))))))))"

text \<open>\<^verbatim>\<open>specialized_proc\<close> and \<^verbatim>\<open>specialized_prog\<close>; a Proc or Prog object is truthy.\<close>

definition specialized_proc :: "state \<Rightarrow> nat \<Rightarrow> Proc option" where
  "specialized_proc s procid =
     (case variant s of
        None \<Rightarrow> procs (ir s) procid
      | Some v \<Rightarrow>
          (case variant_procs v procid of
             Some p \<Rightarrow> Some p
           | None \<Rightarrow> procs (ir s) procid))"

definition specialized_prog :: "state \<Rightarrow> nat \<Rightarrow> Prog option" where
  "specialized_prog s progid =
     (case variant s of
        None \<Rightarrow> progs (ir s) progid
      | Some v \<Rightarrow>
          (case variant_progs v progid of
             Some p \<Rightarrow> Some p
           | None \<Rightarrow> progs (ir s) progid))"

definition bound_vars :: "'a Scope_scheme \<Rightarrow> nat list" where
  "bound_vars scope = bound scope"

text \<open>
  \<^verbatim>\<open>emit_scope\<close>, \<^verbatim>\<open>_emit_subscopes\<close>, \<^verbatim>\<open>_emit_scope_func\<close> (unfolded into its two callers),
  \<^verbatim>\<open>emit_proc\<close> and \<^verbatim>\<open>emit_prog\<close> call each other through the \<^verbatim>\<open>children\<close> ids of the IR,
  which need not be well-founded. The first argument after \<open>up\<close> is fuel, used up by
  \<open>emit_scope\<close>: \<open>None\<close> is "out of fuel", and every other outcome, a throw included, is
  \<open>Some\<close>. \<^verbatim>\<open>console.log\<close> in \<^verbatim>\<open>emit_prog\<close> has no effect on the emitter.
\<close>

fun emit_scope :: "(SyntaxNode \<Rightarrow> bool) \<Rightarrow> nat \<Rightarrow> state \<Rightarrow> nat \<Rightarrow> llvalue res option"
  and emit_subscopes :: "(SyntaxNode \<Rightarrow> bool) \<Rightarrow> nat \<Rightarrow> state \<Rightarrow> nat list \<Rightarrow> unit res option"
  and emit_proc :: "(SyntaxNode \<Rightarrow> bool) \<Rightarrow> nat \<Rightarrow> state \<Rightarrow> Proc \<Rightarrow> llvalue res option"
  and emit_prog :: "(SyntaxNode \<Rightarrow> bool) \<Rightarrow> nat \<Rightarrow> state \<Rightarrow> Prog \<Rightarrow> llvalue res option" where
  "emit_scope up 0 s scope = None"
| "emit_scope up (Suc n) s scope =
     (case specialized_proc s scope of
        Some proc \<Rightarrow> emit_proc up n s proc
      | None \<Rightarrow>
          (case specialized_prog s scope of
             Some prog \<Rightarrow> emit_prog up n s prog
           | None \<Rightarrow> Some (Inl (UnknownScope scope), s)))"
| "emit_subscopes up n s [] = Some (Inr (), s)"
| "emit_subscopes up n s (c # cs) =
     (case emit_scope up n s c of
        None \<Rightarrow> None
      | Some (Inl err, s1) \<Rightarrow> Some (Inl err, s1)
      | Some (Inr f, s1) \<Rightarrow> emit_subscopes up n s1 cs)"
| "emit_proc up n s proc =
     (if persist proc \<noteq> [] then Some (Inl (NotImplemented ''Persist not implemented yet''), s)
      else
        (let arg_ids = params proc;
             free_ids = free proc;
             name = (case id' proc of None \<Rightarrow> Name ''main'' | Some i \<Rightarrow> procsym i)
         in case emit_subscopes up n s (children proc) of
              None \<Rightarrow> None
            | Some (Inl err, s1) \<Rightarrow> Some (Inl err, s1)
            | Some (Inr u, s1) \<Rightarrow>
                Some (emit_fun up s1 name arg_ids free_ids (bound_vars proc) (body proc))))"
| "emit_prog up n s prog =
     (let arg_ids = [];
          free_ids = map escape_id (owned_persist prog) @ free prog;
          name = progsym (id' prog)
      in case emit_subscopes up n s (children prog) of
           None \<Rightarrow> None
         | Some (Inl err, s1) \<Rightarrow> Some (Inl err, s1)
         | Some (Inr u, s1) \<Rightarrow>
             Some (emit_fun up s1 name arg_ids free_ids (bound_vars prog) (body prog)))"

subsection \<open>The driver\<close>

text \<open>
  The emitter \<^verbatim>\<open>codegen\<close> sets up: an empty module, a fresh builder that is never
  positioned (reference 0), an empty \<^verbatim>\<open>named_values\<close> array (reference 1) and no variant.
\<close>

definition initial_emitter :: "CompilerIR \<Rightarrow> state" where
  "initial_emitter c =
     \<lparr>mod' = [], builder = 0, named_values = 1, ir = c, variant = None,
      builder_pos = (\<lambda>b. None), builder_freed = (\<lambda>b. False), arrays = (\<lambda>a. Map.empty),
      next_ref = 2, next_inst = 0\<rparr>"

definition emit_main :: "(SyntaxNode \<Rightarrow> bool) \<Rightarrow> nat \<Rightarrow> state \<Rightarrow> llvalue res option" where
  "emit_main up n s = emit_proc up n s (main (ir s))"

definition codegen :: "(SyntaxNode \<Rightarrow> bool) \<Rightarrow> nat \<Rightarrow> CompilerIR \<Rightarrow> (error + llfunction list) option" where
  "codegen up n c =
     (case emit_main up n (initial_emitter c) of
        None \<Rightarrow> None
      | Some (Inl err, s) \<Rightarrow> Some (Inl err)
      | Some (Inr f, s) \<Rightarrow> Some (Inr (mod' (Builder_free (builder s) s))))"

section \<open>Notions used in the properties\<close>

text \<open>
  The part of the emitter that the expression compiler leaves alone: the builder and
  \<^verbatim>\<open>named_values\<close> references, the contents of all arrays, the IR and the variant.
\<close>

definition frame :: "state \<Rightarrow> nat \<times> nat \<times> (nat \<Rightarrow> nat \<rightharpoonup> llvalue) \<times> CompilerIR \<times> Variant option" where
  "frame s = (builder s, named_values s, arrays s, ir s, variant s)"

text \<open>
  The types the backend supports: Int, Float, and function and code types built from
  supported types.
\<close>

fun supported :: "Type \<Rightarrow> bool" where
  "supported (PrimitiveType n) = (n = ''Int'' \<or> n = ''Float'')"
| "supported (FunType ps r) = (list_all supported ps \<and> supported r)"
| "supported (CodeType inner) = supported inner"
| "supported AnyType = False"
| "supported VoidType = False"
| "supported (ParameterizedType n) = False"
| "supported (InstanceType c a) = False"

text \<open>
  Function \<open>k\<close> of the module under construction has the given name and type.
\<close>

definition has_function :: "state \<Rightarrow> nat \<Rightarrow> symbol \<Rightarrow> lltype \<Rightarrow> bool" where
  "has_function s k name ty \<longleftrightarrow>
     k < length (mod' s) \<and> fn_name (mod' s ! k) = name \<and> fn_type (mod' s ! k) = ty"

text \<open>
  Scope resolution as the specification words it: the first defined entry of
  \<^verbatim>\<open>variant.procs[id]\<close>, \<^verbatim>\<open>ir.procs[id]\<close>, \<^verbatim>\<open>variant.progs[id]\<close>, \<^verbatim>\<open>ir.progs[id]\<close>, where an
  absent variant contributes nothing.
\<close>

fun first_defined :: "'a option list \<Rightarrow> 'a option" where
  "first_defined [] = None"
| "first_defined (None # xs) = first_defined xs"
| "first_defined (Some x # xs) = Some x"

definition resolve_scope :: "state \<Rightarrow> nat \<Rightarrow> (Proc + Prog) option" where
  "resolve_scope s i =
     first_defined
       [map_option Inl (case variant s of None \<Rightarrow> None | Some v \<Rightarrow> variant_procs v i),
        map_option Inl (procs (ir s) i),
        map_option Inr (case variant s of None \<Rightarrow> None | Some v \<Rightarrow> variant_progs v i),
        map_option Inr (progs (ir s) i)]"

text \<open>
  The runtime ABI table as the specification lists it (name, return type, parameter
  types), and the functions the prelude is expected to add for a list of declarations
  when the module has \<open>d\<close> functions and the next instruction number is \<open>n\<close>: for each
  name a bare declaration and a wrapper that calls it with its leading parameters.
  \<open>fresh_names\<close> says that no name of the list, bare or wrapped, is in use already.
\<close>

definition runtime_abi :: "(string \<times> lltype \<times> lltype list) list" where
  "runtime_abi =
     [(''mesh_indices'', IntType 32, [PointerType (IntType 8) 0]),
      (''mesh_positions'', IntType 32, [PointerType (IntType 8) 0]),
      (''mesh_normals'', IntType 32, [PointerType (IntType 8) 0]),
      (''get_shader'', IntType 32, [PointerType (IntType 8) 0, PointerType (IntType 8) 0]),
      (''draw_mesh'', VoidTy, [IntType 32, IntType 32]),
      (''print_mesh'', VoidTy, [PointerType (IntType 8) 0]),
      (''gl_buffer'', IntType 32, [IntType 32, PointerType (IntType 8) 0, PointerType (IntType 8) 0]),
      (''detect_error'', VoidTy, []),
      (''load_obj'', PointerType (IntType 8) 0, [PointerType (IntType 8) 0, PointerType (IntType 8) 0]),
      (''create_window'', PointerType (IntType 8) 0, [])]"

fun expected_prelude :: "(string \<times> lltype \<times> lltype list) list \<Rightarrow> nat \<Rightarrow> nat \<Rightarrow> llfunction list" where
  "expected_prelude [] d n = []"
| "expected_prelude ((name, ret_type, arg_types) # ds) d n =
     \<lparr>fn_name = Name name, fn_type = FunctionType ret_type arg_types, fn_entry = None\<rparr> #
     \<lparr>fn_name = Name (name @ ''_wrapper''), fn_type = FunctionType ret_type (arg_types @ [ptr_t]),
      fn_entry = Some [(n, Call (Function d) (map (Param (Suc d)) [0 ..< length arg_types]) (Name [])),
                       (Suc n, if ret_type = void_t then RetVoid else Ret (Inst n))]\<rparr> #
     expected_prelude ds (Suc (Suc d)) (Suc (Suc n))"

fun fresh_names :: "symbol list \<Rightarrow> (string \<times> lltype \<times> lltype list) list \<Rightarrow> bool" where
  "fresh_names used [] = True"
| "fresh_names used ((name, ret_type, arg_types) # ds) =
     (Name name \<notin> set used \<and> Name (name @ ''_wrapper'') \<notin> set used \<and>
      fresh_names (used @ [Name name, Name (name @ ''_wrapper'')]) ds)"

text \<open>
  Concrete inputs for the examples: a usefulness predicate that keeps every left-hand
  side, and a small IR. Its entry Proc binds variable 3 in \<^verbatim>\<open>let v3 = 1\<close>. Proc 1 and
  Prog 2 carry a persist. Proc 6 has the two parameters 3 and 5. Prog 8 owns the persist
  5 and has the free variable 3; \<open>example_quote_main\<close> is an entry Proc that quotes it.
  Proc 4, which the example variant puts in the place of Proc 1, has an \<^verbatim>\<open>if\<close> as its
  body, which the expression compiler does not implement.
\<close>

definition keep_all :: "SyntaxNode \<Rightarrow> bool" where
  "keep_all tree = True"

definition example_types :: "nat \<rightharpoonup> Type" where
  "example_types =
     [3 \<mapsto> INT', 5 \<mapsto> FLOAT, 8 \<mapsto> CodeType INT', 10 \<mapsto> INT', 11 \<mapsto> FLOAT, 12 \<mapsto> FLOAT, 13 \<mapsto> INT',
      14 \<mapsto> INT', 20 \<mapsto> AnyType, 21 \<mapsto> INT']"

definition example_main :: Proc where
  "example_main =
     \<lparr>id' = None, body = LetNode 3 (LiteralNode 10 ''int'' (NumberValue 1)), free = [],
      bound = [3], persist = [], children = [], params = []\<rparr>"

definition example_prog :: Prog where
  "example_prog =
     \<lparr>id' = Some 2, body = LiteralNode 11 ''float'' (NumberValue 2), free = [],
      bound = [], persist = [ProgEscape 5], children = [], owned_persist = []\<rparr>"

definition example_proc :: Proc where
  "example_proc =
     \<lparr>id' = Some 1, body = LiteralNode 10 ''int'' (NumberValue 1), free = [],
      bound = [], persist = [ProgEscape 5], children = [], params = [3, 5]\<rparr>"

definition example_fun_proc :: Proc where
  "example_fun_proc =
     \<lparr>id' = Some 6, body = LiteralNode 10 ''int'' (NumberValue 1), free = [],
      bound = [], persist = [], children = [], params = [3, 5]\<rparr>"

definition example_owned_prog :: Prog where
  "example_owned_prog =
     \<lparr>id' = Some 8, body = LiteralNode 10 ''int'' (NumberValue 1), free = [3],
      bound = [], persist = [], children = [], owned_persist = [ProgEscape 5]\<rparr>"

definition example_quote_main :: Proc where
  "example_quote_main =
     \<lparr>id' = None, body = QuoteNode 8, free = [], bound = [3], persist = [], children = [8],
      params = []\<rparr>"

definition example_failing_proc :: Proc where
  "example_failing_proc =
     \<lparr>id' = Some 4, body = IfNode 21, free = [], bound = [], persist = [], children = [],
      params = []\<rparr>"

definition example_variant :: Variant where
  "example_variant = \<lparr>variant_procs = [1 \<mapsto> example_failing_proc], variant_progs = Map.empty\<rparr>"

definition example_ir :: CompilerIR where
  "example_ir =
     \<lparr>procs = [1 \<mapsto> example_proc], progs = [2 \<mapsto> example_prog, 8 \<mapsto> example_owned_prog], main = example_main, type_table = example_types,
      defuse = [30 \<mapsto> 3], externs = Map.empty\<rparr>"

text \<open>
  The emitter once the local variable 3 has its alloca, and the emitter with the variant
  active.
\<close>

definition example_scope_state :: state where
  "example_scope_state = snd (alloca_locals [3] (initial_emitter example_ir))"

definition example_variant_state :: state where
  "example_variant_state = (initial_emitter example_ir)\<lparr>variant := Some example_variant\<rparr>"

section \<open>What the expression compiler leaves unchanged\<close>

lemma build_fst [simp]: "fst (build b i s) = Inst (next_inst s)"
  by (simp add: build_def Let_def)

lemma build_frame [simp]: "frame (snd (build b i s)) = frame s"
  by (simp add: build_def Let_def frame_def split: option.split)

lemma addFunction_frame [simp]: "frame (snd (addFunction name ty s)) = frame s"
  by (simp add: addFunction_def frame_def)

lemma getOrInsertFunction_frame [simp]: "frame (snd (getOrInsertFunction name ty s)) = frame s"
  by (simp add: getOrInsertFunction_def split: option.split)

lemma appendBasicBlock_frame [simp]: "frame (appendBasicBlock f s) = frame s"
  by (simp add: appendBasicBlock_def frame_def)

lemma Builder_create_frame [simp]: "frame (snd (Builder_create s)) = frame s"
  by (simp add: Builder_create_def frame_def)

lemma positionAtEnd_frame [simp]: "frame (positionAtEnd b f s) = frame s"
  by (simp add: positionAtEnd_def frame_def)

lemma Builder_free_frame [simp]: "frame (Builder_free b s) = frame s"
  by (simp add: Builder_free_def frame_def)

lemma emit_declaration_frame [simp]: "frame (emit_declaration d s) = frame s"
  by (simp add: emit_declaration_def Let_def case_prod_unfold)

lemma emit_declarations_frame [simp]: "frame (emit_declarations ds s) = frame s"
  by (induction ds arbitrary: s) simp_all

lemma emit_runtime_declaration_frame [simp]: "frame (emit_runtime_declaration s) = frame s"
  by (simp add: emit_runtime_declaration_def)

lemma assignment_helper_frame [simp]: "frame (snd (assignment_helper s v i)) = frame s"
  by (simp add: assignment_helper_def split: option.split)

lemma emit_lookup_frame [simp]: "frame (snd (emit_lookup s i)) = frame s"
  by (simp add: emit_lookup_def Let_def emit_extern_def case_prod_unfold split: option.split)

lemma load_free_vals_frame [simp]: "frame (snd (load_free_vals is s)) = frame s"
  by (induction "is" arbitrary: s) (simp_all add: case_prod_unfold split: option.split sum.split)

lemma insert_free_vals_frame [simp]: "frame (snd (insert_free_vals e vs i s)) = frame s"
  by (induction vs arbitrary: e i s) (simp_all add: case_prod_unfold)

lemma get_env_type_frame: "frame s1 = frame s \<Longrightarrow> get_env_type s1 scope = get_env_type s scope"
  by (simp add: get_env_type_def frame_def)

lemma pack_env_frame [simp]: "frame (snd (pack_env s scope)) = frame s"
  by (simp add: pack_env_def case_prod_unfold split: sum.split)

lemma pack_closure_frame [simp]: "frame (snd (pack_closure s func scope ps)) = frame s"
  by (simp add: pack_closure_def case_prod_unfold Let_def split: sum.split)

lemma emit_quote_frame [simp]: "frame (snd (emit_quote s i)) = frame s"
  by (simp add: emit_quote_def Let_def split: option.split)

lemma emit_func_frame [simp]: "frame (snd (emit_func s i)) = frame s"
  by (simp add: emit_func_def Let_def split: option.split)

lemma unpack_closure_frame [simp]: "frame (snd (unpack_closure s ft c)) = frame s"
  by (simp add: unpack_closure_def case_prod_unfold)

lemma emit_args_frame_aux:
  "(\<And>a s. a \<in> set ts \<Longrightarrow> frame (snd (emit up s a)) = frame s) \<Longrightarrow>
   frame (snd (emit_args up s ts)) = frame s"
  by (induction ts arbitrary: s) (simp_all add: case_prod_unfold split: sum.split)

lemma emit_frame [simp]: "frame (snd (emit up s t)) = frame s"
proof (induction t arbitrary: s)
  case (RootNode i cs)
  then show ?case by (cases cs) simp_all
next
  case (CallNode i f args)
  then show ?case
    by (simp add: case_prod_unfold emit_args_frame_aux split: sum.split)
qed (simp_all add: case_prod_unfold Let_def split: sum.split option.split)

lemma emit_args_frame [simp]: "frame (snd (emit_args up s ts)) = frame s"
  by (simp add: emit_args_frame_aux)

section \<open>Type lowering\<close>

lemma llvm_types_list_all2:
  "llvm_types ps = Inr lps \<longleftrightarrow> list_all2 (\<lambda>p lp. llvm_type p = Inr lp) ps lps"
proof (induction ps arbitrary: lps)
  case Nil
  then show ?case by auto
next
  case (Cons p ps)
  show ?case
  proof (cases lps)
    case Nil
    then show ?thesis by (simp split: sum.split)
  next
    case (Cons l ls)
    then show ?thesis using Cons.IH[of ls] by (auto split: sum.split)
  qed
qed

lemma llvm_types_first_failure:
  "k < length ps \<Longrightarrow> (\<forall>j<k. \<exists>lp. llvm_type (ps ! j) = Inr lp) \<Longrightarrow>
   llvm_type (ps ! k) = Inl err \<Longrightarrow> llvm_types ps = Inl err"
proof (induction ps arbitrary: k)
  case Nil
  then show ?case by simp
next
  case (Cons p ps)
  show ?case
  proof (cases k)
    case 0
    with Cons.prems show ?thesis by simp
  next
    case (Suc m)
    from Cons.prems(2) Suc obtain lp where p: "llvm_type p = Inr lp"
      by fastforce
    have "\<forall>j<m. \<exists>lp. llvm_type (ps ! j) = Inr lp"
      using Cons.prems(2) Suc by fastforce
    with Cons.IH[of m] Cons.prems(1,3) Suc have "llvm_types ps = Inl err"
      by simp
    with p show ?thesis by simp
  qed
qed

lemma llvm_type_error_kind:
  "llvm_type t = Inl err \<Longrightarrow> \<exists>u. err = UnsupportedType u"
  "llvm_types ts = Inl err \<Longrightarrow> \<exists>u. err = UnsupportedType u"
  by (induction t and ts arbitrary: err and err rule: llvm_type_llvm_types.induct)
     (auto split: if_splits sum.splits)

lemma llvm_type_supported:
  "(\<exists>lt. llvm_type t = Inr lt) \<longleftrightarrow> supported t"
  "(\<exists>lts. llvm_types ts = Inr lts) \<longleftrightarrow> list_all supported ts"
  by (induction t and ts rule: llvm_type_llvm_types.induct)
     (auto simp: INT'_def FLOAT_def split: sum.splits)

text \<open>
  C3. Type lowering maps Int to a 32-bit integer and Float to a double. A function type
  whose parameters and return type lower, lowers to the packed two-field struct of a
  pointer to the function type (lowered parameters, i8*) -> lowered return, and an i8*;
  a code type lowers to the same struct with function type (i8*) -> lowered inner type.
  Any, Void, Parameterized and Instance types, and every primitive type other than Int
  and Float, fail with UnsupportedType. A function type without parameters and a code
  type of the same result lower identically. A failure inside a type is the failure of
  the whole: a function type fails with the error of its first parameter that fails,
  or, when all parameters lower, with the error of its return type; a code type fails
  with the error of its inner type. Lowering succeeds exactly on the supported types,
  and every failure is an UnsupportedType.
\<close>

theorem llvm_type_lowering:
  "llvm_type INT' = Inr (IntType 32) \<and>
   llvm_type FLOAT = Inr DoubleType \<and>
   (list_all2 (\<lambda>p lp. llvm_type p = Inr lp) ps lps \<and> llvm_type r = Inr lr \<longrightarrow>
      llvm_type (FunType ps r) =
        Inr (StructType [PointerType (FunctionType lr (lps @ [ptr_t])) 0, ptr_t] True)) \<and>
   (llvm_type inner = Inr li \<longrightarrow>
      llvm_type (CodeType inner) =
        Inr (StructType [PointerType (FunctionType li [ptr_t]) 0, ptr_t] True)) \<and>
   llvm_type AnyType = Inl (UnsupportedType AnyType) \<and>
   llvm_type VoidType = Inl (UnsupportedType VoidType) \<and>
   llvm_type (ParameterizedType n) = Inl (UnsupportedType (ParameterizedType n)) \<and>
   llvm_type (InstanceType c a) = Inl (UnsupportedType (InstanceType c a)) \<and>
   (PrimitiveType m \<noteq> INT' \<and> PrimitiveType m \<noteq> FLOAT \<longrightarrow>
      llvm_type (PrimitiveType m) = Inl (UnsupportedType (PrimitiveType m))) \<and>
   llvm_type (FunType [] t) = llvm_type (CodeType t) \<and>
   (k < length ps \<and> (\<forall>j<k. \<exists>lp. llvm_type (ps ! j) = Inr lp) \<and> llvm_type (ps ! k) = Inl err \<longrightarrow>
      llvm_type (FunType ps r) = Inl err) \<and>
   (list_all2 (\<lambda>p lp. llvm_type p = Inr lp) ps lps \<and> llvm_type r = Inl err \<longrightarrow>
      llvm_type (FunType ps r) = Inl err) \<and>
   (llvm_type inner = Inl err \<longrightarrow> llvm_type (CodeType inner) = Inl err) \<and>
   ((\<exists>lt. llvm_type t = Inr lt) \<longleftrightarrow> supported t) \<and>
   (llvm_type t = Inl err \<longrightarrow> (\<exists>u. err = UnsupportedType u))"
proof (intro conjI)
  show "k < length ps \<and> (\<forall>j<k. \<exists>lp. llvm_type (ps ! j) = Inr lp) \<and> llvm_type (ps ! k) = Inl err \<longrightarrow>
      llvm_type (FunType ps r) = Inl err"
    using llvm_types_first_failure[of k ps err] by simp
  show "(\<exists>lt. llvm_type t = Inr lt) \<longleftrightarrow> supported t"
    by (rule llvm_type_supported(1))
  show "llvm_type t = Inl err \<longrightarrow> (\<exists>u. err = UnsupportedType u)"
    using llvm_type_error_kind(1)[of t err] by simp
qed (simp_all add: INT'_def FLOAT_def ptr_t_def llvm_types_list_all2[symmetric] split: sum.split)

text \<open>
  C3, instances: a function type over Int and Float returning code of Int, a code type,
  a primitive type that is neither Int nor Float, a function type whose second
  parameter is Any, a function type returning Void, and code of Any.
\<close>

theorem llvm_type_lowering_witness:
  "llvm_type (FunType [INT', FLOAT] (CodeType INT')) =
     Inr (StructType
           [PointerType
              (FunctionType
                 (StructType [PointerType (FunctionType (IntType 32) [ptr_t]) 0, ptr_t] True)
                 [IntType 32, DoubleType, ptr_t]) 0,
            ptr_t] True) \<and>
   llvm_type (CodeType INT') =
     Inr (StructType [PointerType (FunctionType (IntType 32) [ptr_t]) 0, ptr_t] True) \<and>
   llvm_type (PrimitiveType ''Float3'') = Inl (UnsupportedType (PrimitiveType ''Float3'')) \<and>
   llvm_type (FunType [INT', AnyType, VoidType] INT') = Inl (UnsupportedType AnyType) \<and>
   llvm_type (FunType [INT', FLOAT] VoidType) = Inl (UnsupportedType VoidType) \<and>
   llvm_type (CodeType AnyType) = Inl (UnsupportedType AnyType) \<and>
   supported (CodeType INT') \<and>
   \<not> supported (CodeType AnyType)"
proof -
  have i: "llvm_type INT' = Inr (IntType 32)"
    by (rule llvm_type_lowering[THEN conjunct1])
  have f: "llvm_type FLOAT = Inr DoubleType"
    by (rule llvm_type_lowering[THEN conjunct2, THEN conjunct1])
  have any: "llvm_type AnyType = Inl (UnsupportedType AnyType)"
    by (rule llvm_type_lowering[THEN conjunct2, THEN conjunct2, THEN conjunct2, THEN conjunct2, THEN conjunct1])
  have void: "llvm_type VoidType = Inl (UnsupportedType VoidType)"
    by (rule llvm_type_lowering[THEN conjunct2, THEN conjunct2, THEN conjunct2, THEN conjunct2, THEN conjunct2, THEN conjunct1])
  note code_ok = llvm_type_lowering[where inner = INT' and li = "IntType 32",
        THEN conjunct2, THEN conjunct2, THEN conjunct2, THEN conjunct1]
  have c: "llvm_type (CodeType INT') =
      Inr (StructType [PointerType (FunctionType (IntType 32) [ptr_t]) 0, ptr_t] True)"
    by (rule code_ok[THEN mp, OF i])
  have ps: "list_all2 (\<lambda>p lp. llvm_type p = Inr lp) [INT', FLOAT] [IntType 32, DoubleType]"
    using i f by simp
  have p: "PrimitiveType ''Float3'' \<noteq> INT' \<and> PrimitiveType ''Float3'' \<noteq> FLOAT"
    by (simp add: INT'_def FLOAT_def)
  note fun_ok = llvm_type_lowering[where ps = "[INT', FLOAT]" and lps = "[IntType 32, DoubleType]"
        and r = "CodeType INT'"
        and lr = "StructType [PointerType (FunctionType (IntType 32) [ptr_t]) 0, ptr_t] True",
        THEN conjunct2, THEN conjunct2, THEN conjunct1]
  have w1: "llvm_type (FunType [INT', FLOAT] (CodeType INT')) =
     Inr (StructType
           [PointerType
              (FunctionType
                 (StructType [PointerType (FunctionType (IntType 32) [ptr_t]) 0, ptr_t] True)
                 ([IntType 32, DoubleType] @ [ptr_t])) 0,
            ptr_t] True)"
    by (rule fun_ok[THEN mp, OF conjI, OF ps c])
  note prim = llvm_type_lowering[where m = "''Float3''",
        THEN conjunct2, THEN conjunct2, THEN conjunct2, THEN conjunct2, THEN conjunct2, THEN conjunct2, THEN conjunct2, THEN conjunct2, THEN conjunct1]
  have w2: "llvm_type (PrimitiveType ''Float3'') = Inl (UnsupportedType (PrimitiveType ''Float3''))"
    by (rule prim[THEN mp, OF p])
  have pre: "Suc 0 < length [INT', AnyType, VoidType] \<and>
      (\<forall>j<Suc 0. \<exists>lp. llvm_type ([INT', AnyType, VoidType] ! j) = Inr lp) \<and>
      llvm_type ([INT', AnyType, VoidType] ! Suc 0) = Inl (UnsupportedType AnyType)"
    using i any by simp
  note param_fails = llvm_type_lowering[where ps = "[INT', AnyType, VoidType]" and k = "Suc 0"
        and err = "UnsupportedType AnyType" and r = INT',
        THEN conjunct2, THEN conjunct2, THEN conjunct2, THEN conjunct2, THEN conjunct2, THEN conjunct2, THEN conjunct2, THEN conjunct2, THEN conjunct2, THEN conjunct2, THEN conjunct1]
  have w3: "llvm_type (FunType [INT', AnyType, VoidType] INT') = Inl (UnsupportedType AnyType)"
    by (rule param_fails[THEN mp, OF pre])
  note ret_fails = llvm_type_lowering[where ps = "[INT', FLOAT]" and lps = "[IntType 32, DoubleType]"
        and r = VoidType and err = "UnsupportedType VoidType",
        THEN conjunct2, THEN conjunct2, THEN conjunct2, THEN conjunct2, THEN conjunct2, THEN conjunct2, THEN conjunct2, THEN conjunct2, THEN conjunct2, THEN conjunct2, THEN conjunct2, THEN conjunct1]
  have w4: "llvm_type (FunType [INT', FLOAT] VoidType) = Inl (UnsupportedType VoidType)"
    by (rule ret_fails[THEN mp, OF conjI, OF ps void])
  note code_fails = llvm_type_lowering[where inner = AnyType and err = "UnsupportedType AnyType",
        THEN conjunct2, THEN conjunct2, THEN conjunct2, THEN conjunct2, THEN conjunct2, THEN conjunct2, THEN conjunct2, THEN conjunct2, THEN conjunct2, THEN conjunct2, THEN conjunct2, THEN conjunct2, THEN conjunct1]
  have w5: "llvm_type (CodeType AnyType) = Inl (UnsupportedType AnyType)"
    by (rule code_fails[THEN mp, OF any])
  note sup1 = llvm_type_lowering[where t = "CodeType INT'",
        THEN conjunct2, THEN conjunct2, THEN conjunct2, THEN conjunct2, THEN conjunct2, THEN conjunct2, THEN conjunct2, THEN conjunct2, THEN conjunct2, THEN conjunct2, THEN conjunct2, THEN conjunct2, THEN conjunct2, THEN conjunct1]
  have w6: "supported (CodeType INT')"
    by (rule sup1[THEN iffD1, OF exI, OF c])
  note sup2 = llvm_type_lowering[where t = "CodeType AnyType",
        THEN conjunct2, THEN conjunct2, THEN conjunct2, THEN conjunct2, THEN conjunct2, THEN conjunct2, THEN conjunct2, THEN conjunct2, THEN conjunct2, THEN conjunct2, THEN conjunct2, THEN conjunct2, THEN conjunct2, THEN conjunct1]
  have w7: "\<not> supported (CodeType AnyType)"
  proof
    assume "supported (CodeType AnyType)"
    from sup2[THEN iffD2, OF this] obtain lt where "llvm_type (CodeType AnyType) = Inr lt" ..
    with w5 show False by (simp only: sum.distinct)
  qed
  from c w1 w2 w3 w4 w5 w6 w7 show ?thesis
    by (simp only: append.simps simp_thms)
qed

lemma build_snd_next_inst [simp]: "next_inst (snd (build b i s)) = Suc (next_inst s)"
  by (simp add: build_def Let_def split: option.split)

lemma build_eq: "build b i s = (Inst (next_inst s), snd (build b i s))"
  by (simp add: prod_eq_iff)

section \<open>Unary and binary operators\<close>

text \<open>
  C9, as the code has it. For a unary node whose operand has been emitted: on an Int
  operand with operator - the result is an integer negation, on a Float operand with
  operator - a floating-point negation; on an Int or Float operand with any other
  operator emission fails with UnknownUnaryOp; on an operand of any other type it
  fails with IncompatibleOperand, whatever the operator.
\<close>

theorem visit_unary_rule:
  "emit up s x = (Inr val, s1) \<Longrightarrow> type_table (ir s1) (node_id x) = Some ty \<Longrightarrow>
   emit up s (UnaryNode i opr x) =
     (if ty = INT' \<or> ty = FLOAT
      then if opr = ''-''
           then (Inr (Inst (next_inst s1)),
                 snd (build (builder s1)
                        ((if ty = INT' then Neg else FNeg) val (Name ''negtmp'')) s1))
           else (Inl UnknownUnaryOp, s1)
      else (Inl IncompatibleOperand, s1))"
  by (simp add: case_prod_unfold INT'_def FLOAT_def)

text \<open>
  C9, instances: \<^verbatim>\<open>-1\<close> on an Int literal, \<^verbatim>\<open>!2.0\<close> on a Float literal and \<^verbatim>\<open>-\<close> on an
  operand of type Any.
\<close>

theorem visit_unary_rule_witness:
  "emit keep_all (initial_emitter example_ir)
     (UnaryNode 13 ''-'' (LiteralNode 10 ''int'' (NumberValue 1))) =
   (Inr (Inst 0),
    snd (build 0 (Neg (ConstInt (NumberValue 1) (IntType 32)) (Name ''negtmp''))
          (initial_emitter example_ir))) \<and>
   emit keep_all (initial_emitter example_ir)
     (UnaryNode 13 ''!'' (LiteralNode 11 ''float'' (NumberValue 2))) =
   (Inl UnknownUnaryOp, initial_emitter example_ir) \<and>
   emit keep_all (initial_emitter example_ir)
     (UnaryNode 13 ''-'' (AllocNode 20)) =
   (Inl IncompatibleOperand, initial_emitter example_ir)"
proof -
  let ?s = "initial_emitter example_ir"
  have t10: "type_table (ir ?s) (node_id (LiteralNode 10 ''int'' (NumberValue 1))) = Some INT'"
    and t11: "type_table (ir ?s) (node_id (LiteralNode 11 ''float'' (NumberValue 2))) = Some FLOAT"
    and t20: "type_table (ir ?s) (node_id (AllocNode 20)) = Some AnyType"
    by (simp_all add: initial_emitter_def example_ir_def example_types_def)
  have e10: "emit keep_all ?s (LiteralNode 10 ''int'' (NumberValue 1)) =
      (Inr (ConstInt (NumberValue 1) (IntType 32)), ?s)"
    and e11: "emit keep_all ?s (LiteralNode 11 ''float'' (NumberValue 2)) =
      (Inr (ConstFloat (NumberValue 2) DoubleType), ?s)"
    and e20: "emit keep_all ?s (AllocNode 20) = (Inr (ConstInt (NumberValue 0) (IntType 32)), ?s)"
    by simp_all
  have b: "builder ?s = 0" and n: "next_inst ?s = 0"
    by (simp_all add: initial_emitter_def)
  show ?thesis
    using visit_unary_rule[OF e10 t10, of 13 "''-''"] visit_unary_rule[OF e11 t11, of 13 "''!''"]
      visit_unary_rule[OF e20 t20, of 13 "''-''"] b n
    by (simp add: INT'_def FLOAT_def)
qed

text \<open>
  C9 as stated fails: the operator \<^verbatim>\<open>+\<close> on an Int operand does not fail with
  IncompatibleOperand but with UnknownUnaryOp.
\<close>

theorem visit_unary_other_operator_counterexample:
  "type_table (ir (initial_emitter example_ir)) 10 = Some INT' \<and>
   fst (emit keep_all (initial_emitter example_ir)
          (UnaryNode 13 ''+'' (LiteralNode 10 ''int'' (NumberValue 1)))) = Inl UnknownUnaryOp \<and>
   fst (emit keep_all (initial_emitter example_ir)
          (UnaryNode 13 ''+'' (LiteralNode 10 ''int'' (NumberValue 1)))) \<noteq> Inl IncompatibleOperand"
  by (simp add: initial_emitter_def example_ir_def example_types_def INT'_def FLOAT_def)

text \<open>
  C6. For a binary node whose operands have been emitted to \<open>lVal\<close> and \<open>rVal\<close>: with
  both operand types Int and operator + or *, the result is one integer add or mul of
  the two values, with no cast; with at least one Float and both numeric, each Int
  operand, and only an Int operand, goes through one signed-int-to-float cast to double
  and the result is one fadd or fmul of the (cast) values; with an operand type that is
  neither Int nor Float emission fails with IncompatibleOperands; with numeric operands
  and any operator other than + and * it fails with UnknownBinaryOp.
\<close>

theorem visit_binary_rule:
  assumes "emit up s lhs = (Inr lVal, s1)"
    and "emit up s1 rhs = (Inr rVal, s2)"
    and "type_table (ir s2) (node_id lhs) = Some lType"
    and "type_table (ir s2) (node_id rhs) = Some rType"
  shows
    "(lType = INT' \<and> rType = INT' \<and> (opr = ''+'' \<or> opr = ''*'') \<longrightarrow>
        emit up s (BinaryNode i opr lhs rhs) =
          (Inr (Inst (next_inst s2)),
           snd (build (builder s2)
                  (if opr = ''+'' then Add lVal rVal (Name ''addtmp'')
                   else Mul lVal rVal (Name ''multmp'')) s2))) \<and>
     ((lType = FLOAT \<or> rType = FLOAT) \<and> (lType = INT' \<or> lType = FLOAT) \<and>
      (rType = INT' \<or> rType = FLOAT) \<and> (opr = ''+'' \<or> opr = ''*'') \<longrightarrow>
        (case (if lType = INT'
               then build (builder s2) (SIToFP lVal DoubleType (Name ''lCast'')) s2
               else (lVal, s2)) of
           (lVal1, s3) \<Rightarrow>
             (case (if rType = INT'
                    then build (builder s2) (SIToFP rVal DoubleType (Name ''lCast'')) s3
                    else (rVal, s3)) of
                (rVal1, s4) \<Rightarrow>
                  emit up s (BinaryNode i opr lhs rhs) =
                    (Inr (Inst (next_inst s4)),
                     snd (build (builder s2)
                            (if opr = ''+'' then FAdd lVal1 rVal1 (Name ''addtmp'')
                             else FMul lVal1 rVal1 (Name ''multmp'')) s4))))) \<and>
     ((lType \<noteq> INT' \<and> lType \<noteq> FLOAT) \<or> (rType \<noteq> INT' \<and> rType \<noteq> FLOAT) \<longrightarrow>
        emit up s (BinaryNode i opr lhs rhs) = (Inl IncompatibleOperands, s2)) \<and>
     ((lType = INT' \<or> lType = FLOAT) \<and> (rType = INT' \<or> rType = FLOAT) \<and>
      opr \<noteq> ''+'' \<and> opr \<noteq> ''*'' \<longrightarrow>
        fst (emit up s (BinaryNode i opr lhs rhs)) = Inl UnknownBinaryOp)"
proof -
  have b: "\<And>b i s. builder (snd (build b i s)) = builder s"
    using build_frame by (simp add: frame_def)
  have neq: "INT' \<noteq> FLOAT"
    by (simp add: INT'_def FLOAT_def)
  show ?thesis
    using assms neq by (auto simp: case_prod_unfold b)
qed

lemma build_positioned:
  "builder_pos s b = Some f \<Longrightarrow> f < length (mod' s) \<Longrightarrow> fn_entry (mod' s ! f) = Some blk \<Longrightarrow>
   fn_entry (mod' (snd (build b i s)) ! f) = Some (blk @ [(next_inst s, i)])"
  by (simp add: build_def Let_def append_instr_def)

text \<open>
  C6, instances: \<^verbatim>\<open>1 * 3\<close> stays integer, \<^verbatim>\<open>1 + 2.0\<close> casts the left operand and adds
  floats, an operand of type Any is refused, and \<^verbatim>\<open>1 - 3\<close> is an unknown operator.
\<close>

theorem visit_binary_rule_witness:
  "emit keep_all (initial_emitter example_ir)
     (BinaryNode 12 ''*'' (LiteralNode 10 ''int'' (NumberValue 1)) (LiteralNode 14 ''int'' (NumberValue 3))) =
   (Inr (Inst 0),
    snd (build 0 (Mul (ConstInt (NumberValue 1) (IntType 32)) (ConstInt (NumberValue 3) (IntType 32))
                    (Name ''multmp''))
          (initial_emitter example_ir))) \<and>
   emit keep_all (initial_emitter example_ir)
     (BinaryNode 12 ''+'' (LiteralNode 10 ''int'' (NumberValue 1)) (LiteralNode 11 ''float'' (NumberValue 2))) =
   (Inr (Inst 1),
    snd (build 0 (FAdd (Inst 0) (ConstFloat (NumberValue 2) DoubleType) (Name ''addtmp''))
          (snd (build 0 (SIToFP (ConstInt (NumberValue 1) (IntType 32)) DoubleType (Name ''lCast''))
                 (initial_emitter example_ir))))) \<and>
   emit keep_all (initial_emitter example_ir)
     (BinaryNode 12 ''+'' (LiteralNode 10 ''int'' (NumberValue 1)) (AllocNode 20)) =
   (Inl IncompatibleOperands, initial_emitter example_ir) \<and>
   fst (emit keep_all (initial_emitter example_ir)
     (BinaryNode 12 ''-'' (LiteralNode 10 ''int'' (NumberValue 1)) (LiteralNode 14 ''int'' (NumberValue 3)))) =
   Inl UnknownBinaryOp"
proof -
  let ?s = "initial_emitter example_ir"
  let ?l10 = "LiteralNode 10 ''int'' (NumberValue 1)"
  let ?l14 = "LiteralNode 14 ''int'' (NumberValue 3)"
  let ?l11 = "LiteralNode 11 ''float'' (NumberValue 2)"
  have t10: "type_table (ir ?s) (node_id ?l10) = Some INT'"
    and t14: "type_table (ir ?s) (node_id ?l14) = Some INT'"
    and t11: "type_table (ir ?s) (node_id ?l11) = Some FLOAT"
    and t20: "type_table (ir ?s) (node_id (AllocNode 20)) = Some AnyType"
    by (simp_all add: initial_emitter_def example_ir_def example_types_def)
  have e10: "emit keep_all ?s ?l10 = (Inr (ConstInt (NumberValue 1) (IntType 32)), ?s)"
    and e14: "emit keep_all ?s ?l14 = (Inr (ConstInt (NumberValue 3) (IntType 32)), ?s)"
    and e11: "emit keep_all ?s ?l11 = (Inr (ConstFloat (NumberValue 2) DoubleType), ?s)"
    and e20: "emit keep_all ?s (AllocNode 20) = (Inr (ConstInt (NumberValue 0) (IntType 32)), ?s)"
    by simp_all
  have b: "builder ?s = 0" and n: "next_inst ?s = 0"
    by (simp_all add: initial_emitter_def)
  have neq: "INT' \<noteq> FLOAT" "AnyType \<noteq> INT'" "AnyType \<noteq> FLOAT"
    by (simp_all add: INT'_def FLOAT_def)
  show ?thesis
    using visit_binary_rule[OF e10 e14 t10 t14, of "''*''" 12]
      visit_binary_rule[OF e10 e11 t10 t11, of "''+''" 12]
      visit_binary_rule[OF e10 e20 t10 t20, of "''+''" 12]
      visit_binary_rule[OF e10 e14 t10 t14, of "''-''" 12] b n neq
    by (simp add: case_prod_unfold)
qed

section \<open>Let and assignment\<close>

text \<open>
  C10. A Let node, or an Assign node whose target is not an extern, fails when the
  target definition id has no alloca in \<^verbatim>\<open>named_values\<close>. The right-hand side is emitted
  first and leaves \<^verbatim>\<open>named_values\<close> as it was; once it has been emitted to a value \<open>v\<close>
  in state \<open>s1\<close>: without an alloca for the target the node fails with the
  unknown-variable error and the state stays \<open>s1\<close>; with an alloca \<open>ptr\<close>, \<open>v\<close> is stored
  through \<open>ptr\<close> and \<open>v\<close> is the value of the node.
\<close>

theorem assignment_rule:
  "(arrays s (named_values s) n = None \<longrightarrow> (\<exists>err. fst (emit up s (LetNode n x)) = Inl err)) \<and>
   (index (externs (ir s)) (defuse (ir s) n) = None \<and>
    index (arrays s (named_values s)) (defuse (ir s) n) = None \<longrightarrow>
      (\<exists>err. fst (emit up s (AssignNode n x)) = Inl err)) \<and>
   (emit up s x = (Inr v, s1) \<longrightarrow>
      arrays s1 (named_values s1) = arrays s (named_values s) \<and>
      (arrays s1 (named_values s1) n = None \<longrightarrow>
         emit up s (LetNode n x) = (Inl UnknownVariable, s1)) \<and>
      (arrays s1 (named_values s1) n = Some ptr \<longrightarrow>
         emit up s (LetNode n x) = (Inr v, snd (build (builder s1) (Store v ptr) s1))) \<and>
      (index (externs (ir s)) (defuse (ir s) n) = None \<longrightarrow>
         (index (arrays s1 (named_values s1)) (defuse (ir s) n) = None \<longrightarrow>
            emit up s (AssignNode n x) = (Inl UnknownVariable, s1)) \<and>
         (index (arrays s1 (named_values s1)) (defuse (ir s) n) = Some ptr \<longrightarrow>
            emit up s (AssignNode n x) = (Inr v, snd (build (builder s1) (Store v ptr) s1)))))"
proof -
  have fr: "frame (snd (emit up s x)) = frame s"
    by simp
  have same: "arrays (snd (emit up s x)) (named_values (snd (emit up s x))) = arrays s (named_values s)"
    using fr by (simp add: frame_def)
  show ?thesis
    using same
    by (cases "emit up s x"; cases "fst (emit up s x)")
       (auto simp: assignment_helper_def Let_def)
qed

lemma example_scope_state_simps:
  "arrays example_scope_state (named_values example_scope_state) 3 = Some (Inst 0)"
  "builder example_scope_state = 0"
  "defuse (ir example_scope_state) 30 = Some 3"
  "externs (ir example_scope_state) 3 = None"
  by (simp_all add: example_scope_state_def initial_emitter_def example_ir_def example_types_def
      llvm_type_of_id_def INT'_def named_values_set_def build_def Let_def)

text \<open>
  C10, instances: \<^verbatim>\<open>let v3 = 1\<close> and \<^verbatim>\<open>v3 := 1\<close> before and after variable 3 has its
  alloca.
\<close>

theorem assignment_rule_witness:
  "emit keep_all (initial_emitter example_ir) (LetNode 3 (LiteralNode 10 ''int'' (NumberValue 1))) =
     (Inl UnknownVariable, initial_emitter example_ir) \<and>
   emit keep_all (initial_emitter example_ir) (AssignNode 30 (LiteralNode 10 ''int'' (NumberValue 1))) =
     (Inl UnknownVariable, initial_emitter example_ir) \<and>
   emit keep_all example_scope_state (LetNode 3 (LiteralNode 10 ''int'' (NumberValue 1))) =
     (Inr (ConstInt (NumberValue 1) (IntType 32)),
      snd (build 0 (Store (ConstInt (NumberValue 1) (IntType 32)) (Inst 0)) example_scope_state)) \<and>
   emit keep_all example_scope_state (AssignNode 30 (LiteralNode 10 ''int'' (NumberValue 1))) =
     (Inr (ConstInt (NumberValue 1) (IntType 32)),
      snd (build 0 (Store (ConstInt (NumberValue 1) (IntType 32)) (Inst 0)) example_scope_state))"
proof -
  let ?s = "initial_emitter example_ir"
  let ?x = "LiteralNode 10 ''int'' (NumberValue 1)"
  let ?v = "ConstInt (NumberValue 1) (IntType 32)"
  have e0: "emit keep_all ?s ?x = (Inr ?v, ?s)"
    and e1: "emit keep_all example_scope_state ?x = (Inr ?v, example_scope_state)"
    by simp_all
  have n0: "arrays ?s (named_values ?s) 3 = None"
    and d0: "defuse (ir ?s) 30 = Some 3" and x0: "externs (ir ?s) 3 = None"
    by (simp_all add: initial_emitter_def example_ir_def)
  have "emit keep_all ?s (LetNode 3 ?x) = (Inl UnknownVariable, ?s)"
    using assignment_rule[of ?s 3 keep_all ?x ?v ?s] e0 n0 by simp
  moreover have "emit keep_all ?s (AssignNode 30 ?x) = (Inl UnknownVariable, ?s)"
    using assignment_rule[of ?s 30 keep_all ?x ?v ?s] e0 n0 d0 x0 by simp
  moreover have "emit keep_all example_scope_state (LetNode 3 ?x) =
      (Inr ?v, snd (build 0 (Store ?v (Inst 0)) example_scope_state))"
    using assignment_rule[of example_scope_state 3 keep_all ?x ?v example_scope_state "Inst 0"]
      e1 example_scope_state_simps by simp
  moreover have "emit keep_all example_scope_state (AssignNode 30 ?x) =
      (Inr ?v, snd (build 0 (Store ?v (Inst 0)) example_scope_state))"
    using assignment_rule[of example_scope_state 30 keep_all ?x ?v example_scope_state "Inst 0"]
      e1 example_scope_state_simps by simp
  ultimately show ?thesis by simp
qed

lemmas binding_defs = build_def Let_def append_instr_def addFunction_def appendBasicBlock_def
  Builder_create_def positionAtEnd_def Builder_free_def new_array_def named_values_set_def

lemmas example_defs = initial_emitter_def example_ir_def example_types_def example_main_def
  example_prog_def example_proc_def keep_all_def
  example_failing_proc_def example_variant_def example_fun_proc_def example_owned_prog_def example_quote_main_def

section \<open>Persists\<close>

text \<open>
  C5 as stated fails: \<^verbatim>\<open>emit_prog\<close> on a Prog with a non-empty persist list does not
  abort; it produces the function.
\<close>

theorem emit_prog_persist_counterexample:
  "persist example_prog \<noteq> [] \<and>
   map_option fst (emit_prog keep_all 0 (initial_emitter example_ir) example_prog) =
     Some (Inr (Function 0))"
  by (simp add: example_defs emit_fun_def get_func_type_def llvm_type_of_id_def bound_vars_def
      binding_defs INT'_def FLOAT_def)

lemma emit_prog_ignores_persist:
  "emit_prog up n s (prog\<lparr>persist := ps\<rparr>) = emit_prog up n s prog"
  by (simp add: bound_vars_def split: option.split prod.split sum.split)

text \<open>
  C5, as the code has it. \<^verbatim>\<open>emit_proc\<close> on a Proc with a non-empty persist list aborts
  before anything is emitted. \<^verbatim>\<open>emit_prog\<close> does not read the persist list for the
  emitter (it only logs it): it emits a Prog as it would with an empty list. Packing a
  closure over a scope, Proc or Prog, with a non-empty persist list aborts: with the
  persist error once the environment has been packed.
\<close>

theorem persist_handling:
  "(persist proc \<noteq> [] \<longrightarrow>
      emit_proc up n s proc = Some (Inl (NotImplemented ''Persist not implemented yet''), s)) \<and>
   emit_prog up n s (prog\<lparr>persist := ps\<rparr>) = emit_prog up n s prog \<and>
   (persist scope \<noteq> [] \<longrightarrow> (\<exists>err. fst (pack_closure s func scope pars) = Inl err)) \<and>
   (persist scope \<noteq> [] \<and> pack_env s scope = (Inr env_ptr, s1) \<longrightarrow>
      pack_closure s func scope pars = (Inl (NotImplemented ''persists not implemented yet''), s1))"
  using emit_prog_ignores_persist[of up n s ps prog]
  by (auto simp: pack_closure_def split: prod.split sum.split)

text \<open>
  C5, instances: Proc 1 and Prog 2 of the example IR, each with one persist.
\<close>

theorem persist_handling_witness:
  "emit_proc keep_all 0 (initial_emitter example_ir) example_proc =
     Some (Inl (NotImplemented ''Persist not implemented yet''), initial_emitter example_ir) \<and>
   emit_prog keep_all 0 (initial_emitter example_ir) example_prog =
     emit_prog keep_all 0 (initial_emitter example_ir) (example_prog\<lparr>persist := []\<rparr>) \<and>
   pack_closure (initial_emitter example_ir) Null example_prog None =
     (Inl (NotImplemented ''persists not implemented yet''),
      snd (pack_env (initial_emitter example_ir) example_prog))"
proof -
  let ?s = "initial_emitter example_ir"
  have p1: "persist example_proc \<noteq> []" and p2: "persist example_prog \<noteq> []"
    by (simp_all add: example_proc_def example_prog_def)
  have pe: "pack_env ?s example_prog = (Inr (Inst 2), snd (pack_env ?s example_prog))"
    by (simp add: prod_eq_iff pack_env_def get_env_type_def example_prog_def case_prod_unfold
        initial_emitter_def)
  have u: "example_prog\<lparr>persist := [], persist := [ProgEscape 5]\<rparr> = example_prog"
    by (simp add: example_prog_def)
  show ?thesis
    using persist_handling[where proc = example_proc and up = keep_all and n = 0 and s = ?s
        and prog = "example_prog\<lparr>persist := []\<rparr>" and ps = "[ProgEscape 5]"
        and scope = example_prog and func = Null and pars = None and env_ptr = "Inst 2"
        and ?s1.0 = "snd (pack_env ?s example_prog)"]
      p1 p2 pe u
    by simp
qed

section \<open>What the scope compiler leaves unchanged\<close>

lemma build_fields [simp]:
  "builder (snd (build b i s)) = builder s"
  "named_values (snd (build b i s)) = named_values s"
  "ir (snd (build b i s)) = ir s"
  "variant (snd (build b i s)) = variant s"
  using build_frame[of b i s] by (simp_all add: frame_def)

lemma addFunction_fields [simp]:
  "builder (snd (addFunction name ty s)) = builder s"
  "named_values (snd (addFunction name ty s)) = named_values s"
  "ir (snd (addFunction name ty s)) = ir s"
  "variant (snd (addFunction name ty s)) = variant s"
  using addFunction_frame[of name ty s] by (simp_all add: frame_def)

lemma appendBasicBlock_fields [simp]:
  "builder (appendBasicBlock f s) = builder s"
  "named_values (appendBasicBlock f s) = named_values s"
  "ir (appendBasicBlock f s) = ir s"
  "variant (appendBasicBlock f s) = variant s"
  using appendBasicBlock_frame[of f s] by (simp_all add: frame_def)

lemma Builder_create_fields [simp]:
  "builder (snd (Builder_create s)) = builder s"
  "named_values (snd (Builder_create s)) = named_values s"
  "ir (snd (Builder_create s)) = ir s"
  "variant (snd (Builder_create s)) = variant s"
  using Builder_create_frame[of s] by (simp_all add: frame_def)

lemma positionAtEnd_fields [simp]:
  "builder (positionAtEnd b f s) = builder s"
  "named_values (positionAtEnd b f s) = named_values s"
  "ir (positionAtEnd b f s) = ir s"
  "variant (positionAtEnd b f s) = variant s"
  using positionAtEnd_frame[of b f s] by (simp_all add: frame_def)

lemma Builder_free_fields [simp]:
  "builder (Builder_free b s) = builder s"
  "named_values (Builder_free b s) = named_values s"
  "ir (Builder_free b s) = ir s"
  "variant (Builder_free b s) = variant s"
  using Builder_free_frame[of b s] by (simp_all add: frame_def)

lemma emit_fields [simp]:
  "builder (snd (emit up s t)) = builder s"
  "named_values (snd (emit up s t)) = named_values s"
  "ir (snd (emit up s t)) = ir s"
  "variant (snd (emit up s t)) = variant s"
  using emit_frame[of up s t] by (simp_all add: frame_def)

lemma new_array_fields [simp]:
  "builder (snd (new_array s)) = builder s"
  "named_values (snd (new_array s)) = named_values s"
  "ir (snd (new_array s)) = ir s"
  "variant (snd (new_array s)) = variant s"
  "fst (new_array s) = next_ref s"
  by (simp_all add: new_array_def)

lemma named_values_set_fields [simp]:
  "builder (named_values_set i p s) = builder s"
  "named_values (named_values_set i p s) = named_values s"
  "ir (named_values_set i p s) = ir s"
  "variant (named_values_set i p s) = variant s"
  by (simp_all add: named_values_set_def)

lemma alloca_args_fields [simp]:
  "builder (alloca_args func as tys i s) = builder s \<and>
   named_values (alloca_args func as tys i s) = named_values s \<and>
   ir (alloca_args func as tys i s) = ir s \<and>
   variant (alloca_args func as tys i s) = variant s"
  by (induction as arbitrary: i s) (simp_all add: case_prod_unfold)

lemma unpack_free_fields [simp]:
  "builder (unpack_free env_ptr as tys i s) = builder s \<and>
   named_values (unpack_free env_ptr as tys i s) = named_values s \<and>
   ir (unpack_free env_ptr as tys i s) = ir s \<and>
   variant (unpack_free env_ptr as tys i s) = variant s"
  by (induction as arbitrary: i s) (simp_all add: case_prod_unfold)

lemma alloca_locals_fields [simp]:
  "builder (snd (alloca_locals as s)) = builder s \<and>
   named_values (snd (alloca_locals as s)) = named_values s \<and>
   ir (snd (alloca_locals as s)) = ir s \<and>
   variant (snd (alloca_locals as s)) = variant s"
  by (induction as arbitrary: s) (simp_all add: case_prod_unfold split: sum.split)

lemma next_ref_simps [simp]:
  "next_ref (snd (addFunction name ty s)) = next_ref s"
  "next_ref (appendBasicBlock f s) = next_ref s"
  "next_ref (positionAtEnd b f s) = next_ref s"
  "next_ref (snd (Builder_create s)) = Suc (next_ref s)"
  "fst (Builder_create s) = next_ref s"
  by (simp_all add: addFunction_def appendBasicBlock_def positionAtEnd_def Builder_create_def)

lemma emit_fun_inputs:
  "ir (snd (emit_fun up s name arg_ids free_ids local_ids bdy)) = ir s \<and>
   variant (snd (emit_fun up s name arg_ids free_ids local_ids bdy)) = variant s"
  by (simp add: emit_fun_def case_prod_unfold Let_def split: sum.split)

lemma emit_fun_cases:
  "(case fst (emit_fun up s name arg_ids free_ids local_ids bdy) of
      Inr f \<Rightarrow>
        builder (snd (emit_fun up s name arg_ids free_ids local_ids bdy)) = builder s \<and>
        named_values (snd (emit_fun up s name arg_ids free_ids local_ids bdy)) = named_values s
    | Inl err \<Rightarrow>
        (case get_func_type s (node_id bdy) arg_ids of
           Inl err' \<Rightarrow> emit_fun up s name arg_ids free_ids local_ids bdy = (Inl err', s)
         | Inr ft \<Rightarrow>
             builder (snd (emit_fun up s name arg_ids free_ids local_ids bdy)) = next_ref s \<and>
             named_values (snd (emit_fun up s name arg_ids free_ids local_ids bdy)) =
               Suc (next_ref s)))"
  by (simp add: emit_fun_def case_prod_unfold Let_def split: sum.split)

lemma emit_fun_discipline:
  "emit_fun up s name arg_ids free_ids local_ids bdy = (r, s') \<Longrightarrow>
   ir s' = ir s \<and> variant s' = variant s \<and>
   (\<forall>f. r = Inr f \<longrightarrow> builder s' = builder s \<and> named_values s' = named_values s)"
  using emit_fun_inputs[of up s name arg_ids free_ids local_ids bdy]
    emit_fun_cases[of up s name arg_ids free_ids local_ids bdy]
  by (auto split: sum.splits)

lemma scope_discipline:
  "emit_scope up n s i = Some (r, s') \<Longrightarrow>
     ir s' = ir s \<and> variant s' = variant s \<and>
     (\<forall>f. r = Inr f \<longrightarrow> builder s' = builder s \<and> named_values s' = named_values s)"
  "emit_subscopes up n s cs = Some (ru, s') \<Longrightarrow>
     ir s' = ir s \<and> variant s' = variant s \<and>
     (\<forall>f. ru = Inr f \<longrightarrow> builder s' = builder s \<and> named_values s' = named_values s)"
  "emit_proc up n s proc = Some (r, s') \<Longrightarrow>
     ir s' = ir s \<and> variant s' = variant s \<and>
     (\<forall>f. r = Inr f \<longrightarrow> builder s' = builder s \<and> named_values s' = named_values s)"
  "emit_prog up n s prog = Some (r, s') \<Longrightarrow>
     ir s' = ir s \<and> variant s' = variant s \<and>
     (\<forall>f. r = Inr f \<longrightarrow> builder s' = builder s \<and> named_values s' = named_values s)"
proof (induction up n s i and up n s cs and up n s proc and up n s prog
    arbitrary: r s' and ru s' and r s' and r s'
    rule: emit_scope_emit_subscopes_emit_proc_emit_prog.induct)
  case (1 up s scope)
  then show ?case by simp
next
  case (2 up n s scope)
  then show ?case by (auto split: option.splits)
next
  case (3 up n s)
  then show ?case by simp
next
  case (4 up n s c cs)
  from "4.prems" show ?case
  proof (cases "emit_scope up n s c")
    case None
    with "4.prems" show ?thesis by simp
  next
    case (Some p)
    obtain r1 s1 where p: "p = (r1, s1)" by (cases p)
    note h1 = "4.IH"(1)[OF Some[unfolded p]]
    show ?thesis
    proof (cases r1)
      case (Inl e)
      with "4.prems" Some p h1 show ?thesis by auto
    next
      case (Inr f)
      have e2: "emit_subscopes up n s1 cs = Some (ru, s')"
        using "4.prems" Some p Inr by simp
      note h2 = "4.IH"(2)[OF Some[unfolded p] _ Inr e2]
      show ?thesis using h1 h2 Inr by auto
    qed
  qed
next
  case (5 up n s proc)
  show ?case
  proof (cases "persist proc \<noteq> []")
    case True
    with "5.prems" show ?thesis by simp
  next
    case False
    show ?thesis
    proof (cases "emit_subscopes up n s (children proc)")
      case None
      with "5.prems" False show ?thesis by simp
    next
      case (Some p)
      obtain r1 s1 where p: "p = (r1, s1)" by (cases p)
      have h1: "ir s1 = ir s \<and> variant s1 = variant s \<and>
          (\<forall>f. r1 = Inr f \<longrightarrow> builder s1 = builder s \<and> named_values s1 = named_values s)"
        using "5.IH"[OF _ _ _ _ Some[unfolded p]] False by simp
      show ?thesis
      proof (cases r1)
        case (Inl e)
        with "5.prems" False Some p h1 show ?thesis by auto
      next
        case (Inr u)
        have "emit_fun up s1 (case id' proc of None \<Rightarrow> Name ''main'' | Some i \<Rightarrow> procsym i)
            (params proc) (free proc) (bound_vars proc) (body proc) = (r, s')"
          using "5.prems" False Some p Inr by simp
        from emit_fun_discipline[OF this] h1 Inr show ?thesis by auto
      qed
    qed
  qed
next
  case (6 up n s prog)
  show ?case
  proof (cases "emit_subscopes up n s (children prog)")
    case None
    with "6.prems" show ?thesis by simp
  next
    case (Some p)
    obtain r1 s1 where p: "p = (r1, s1)" by (cases p)
    have h1: "ir s1 = ir s \<and> variant s1 = variant s \<and>
        (\<forall>f. r1 = Inr f \<longrightarrow> builder s1 = builder s \<and> named_values s1 = named_values s)"
      using "6.IH"[OF _ _ _ Some[unfolded p]] by simp
    show ?thesis
    proof (cases r1)
      case (Inl e)
      with "6.prems" Some p h1 show ?thesis by auto
    next
      case (Inr u)
      have "emit_fun up s1 (progsym (id' prog)) []
          (map escape_id (owned_persist prog) @ free prog) (bound_vars prog) (body prog) = (r, s')"
        using "6.prems" Some p Inr by simp
      from emit_fun_discipline[OF this] h1 Inr show ?thesis by auto
    qed
  qed
qed

section \<open>Scope resolution\<close>

text \<open>
  C7. \<^verbatim>\<open>emit_scope\<close> emits the first defined entry of \<^verbatim>\<open>variant.procs[id]\<close>, \<^verbatim>\<open>ir.procs[id]\<close>,
  \<^verbatim>\<open>variant.progs[id]\<close>, \<^verbatim>\<open>ir.progs[id]\<close> in that order, as a Proc for the first two and as
  a Prog for the last two; it fails with UnknownScope, leaving the emitter unchanged,
  exactly when all four are absent (an absent variant contributing nothing). Neither the
  resolution nor the emission that follows changes the IR or the variant.
\<close>

theorem scope_resolution:
  "emit_scope up (Suc n) s i =
     (case resolve_scope s i of
        None \<Rightarrow> Some (Inl (UnknownScope i), s)
      | Some (Inl proc) \<Rightarrow> emit_proc up n s proc
      | Some (Inr prog) \<Rightarrow> emit_prog up n s prog) \<and>
   (resolve_scope s i = None \<longleftrightarrow>
      (case variant s of None \<Rightarrow> True
       | Some v \<Rightarrow> variant_procs v i = None \<and> variant_progs v i = None) \<and>
      procs (ir s) i = None \<and> progs (ir s) i = None) \<and>
   (emit_scope up k s i = Some (r, s') \<longrightarrow> ir s' = ir s \<and> variant s' = variant s)"
proof -
  have a: "emit_scope up (Suc n) s i =
     (case resolve_scope s i of
        None \<Rightarrow> Some (Inl (UnknownScope i), s)
      | Some (Inl proc) \<Rightarrow> emit_proc up n s proc
      | Some (Inr prog) \<Rightarrow> emit_prog up n s prog)"
    by (cases "variant s"; cases "procs (ir s) i"; cases "progs (ir s) i";
        cases "variant_procs (the (variant s)) i"; cases "variant_progs (the (variant s)) i")
       (simp_all add: resolve_scope_def specialized_proc_def specialized_prog_def del: emit_proc.simps emit_prog.simps)
  have b: "resolve_scope s i = None \<longleftrightarrow>
      (case variant s of None \<Rightarrow> True
       | Some v \<Rightarrow> variant_procs v i = None \<and> variant_progs v i = None) \<and>
      procs (ir s) i = None \<and> progs (ir s) i = None"
    by (cases "variant s"; cases "procs (ir s) i"; cases "progs (ir s) i";
        cases "variant_procs (the (variant s)) i"; cases "variant_progs (the (variant s)) i")
       (simp_all add: resolve_scope_def)
  show ?thesis
    using a b scope_discipline(1)[of up k s i r s'] by blast
qed

lemmas scope_eval_defs = emit_fun_def get_func_type_def llvm_type_of_id_def bound_vars_def
  binding_defs INT'_def FLOAT_def specialized_proc_def specialized_prog_def

text \<open>
  C7, instances: the variant's Proc wins over the IR's, the IR's Proc is used without a
  variant, a Prog is found when no Proc is, id 7 is unknown, and Prog 2 is emitted with
  the IR and the variant unchanged.
\<close>

theorem scope_resolution_witness:
  "emit_scope keep_all 1 example_variant_state 1 =
     emit_proc keep_all 0 example_variant_state example_failing_proc \<and>
   emit_scope keep_all 1 (initial_emitter example_ir) 1 =
     emit_proc keep_all 0 (initial_emitter example_ir) example_proc \<and>
   emit_scope keep_all 1 example_variant_state 2 =
     emit_prog keep_all 0 example_variant_state example_prog \<and>
   emit_scope keep_all 1 example_variant_state 7 =
     Some (Inl (UnknownScope 7), example_variant_state) \<and>
   map_option fst (emit_scope keep_all 1 example_variant_state 2) = Some (Inr (Function 0)) \<and>
   map_option (ir \<circ> snd) (emit_scope keep_all 1 example_variant_state 2) = Some example_ir \<and>
   map_option (variant \<circ> snd) (emit_scope keep_all 1 example_variant_state 2) =
     Some (Some example_variant)"
proof -
  let ?sv = "example_variant_state"
  let ?s = "initial_emitter example_ir"
  have r1: "resolve_scope ?sv 1 = Some (Inl example_failing_proc)"
    and r2: "resolve_scope ?s 1 = Some (Inl example_proc)"
    and r3: "resolve_scope ?sv 2 = Some (Inr example_prog)"
    and r4: "resolve_scope ?sv 7 = None"
    by (simp_all add: resolve_scope_def example_variant_state_def initial_emitter_def
        example_ir_def example_variant_def)
  have ok: "map_option fst (emit_scope keep_all 1 ?sv 2) = Some (Inr (Function 0))"
    by (simp add: example_variant_state_def example_defs scope_eval_defs)
  then obtain s' where e: "emit_scope keep_all 1 ?sv 2 = Some (Inr (Function 0), s')"
    by (cases "emit_scope keep_all 1 ?sv 2") auto
  have iv: "ir ?sv = example_ir" "variant ?sv = Some example_variant"
    by (simp_all add: example_variant_state_def initial_emitter_def)
  have "ir s' = example_ir \<and> variant s' = Some example_variant"
    using scope_resolution[of keep_all 0 ?sv 2 1 "Inr (Function 0)" s'] e iv by simp
  then have st: "map_option (ir \<circ> snd) (emit_scope keep_all 1 ?sv 2) = Some example_ir \<and>
      map_option (variant \<circ> snd) (emit_scope keep_all 1 ?sv 2) = Some (Some example_variant)"
    using e by simp
  have "emit_scope keep_all 1 ?sv 1 = emit_proc keep_all 0 ?sv example_failing_proc"
    using scope_resolution[of keep_all 0 ?sv 1] r1 by simp
  moreover have "emit_scope keep_all 1 ?s 1 = emit_proc keep_all 0 ?s example_proc"
    using scope_resolution[of keep_all 0 ?s 1] r2 by simp
  moreover have "emit_scope keep_all 1 ?sv 2 = emit_prog keep_all 0 ?sv example_prog"
    using scope_resolution[of keep_all 0 ?sv 2] r3 by simp
  moreover have "emit_scope keep_all 1 ?sv 7 = Some (Inl (UnknownScope 7), ?sv)"
    using scope_resolution[of keep_all 0 ?sv 7] r4 by simp
  ultimately show ?thesis using ok st by simp
qed

section \<open>Save and restore of the builder and named_values\<close>

text \<open>
  C4, as the code has it. Whenever the emission of a scope returns (\<^verbatim>\<open>emit_fun\<close>,
  \<^verbatim>\<open>emit_proc\<close>, \<^verbatim>\<open>emit_prog\<close>, \<^verbatim>\<open>emit_scope\<close>), the emitter's builder and \<^verbatim>\<open>named_values\<close> are
  the objects that were present on entry. When \<^verbatim>\<open>emit_fun\<close> fails after the function
  type has been computed (in the types of the free or local variables, or in the body)
  nothing is restored: the emitter is left with the scope's own fresh builder and fresh
  \<^verbatim>\<open>named_values\<close> array, which differ from those on entry.
\<close>

theorem scope_builder_discipline:
  "(emit_fun up s name arg_ids free_ids local_ids bdy = (Inr f, s') \<longrightarrow>
      builder s' = builder s \<and> named_values s' = named_values s) \<and>
   (emit_proc up n s proc = Some (Inr f, s') \<longrightarrow>
      builder s' = builder s \<and> named_values s' = named_values s) \<and>
   (emit_prog up n s prog = Some (Inr f, s') \<longrightarrow>
      builder s' = builder s \<and> named_values s' = named_values s) \<and>
   (emit_scope up n s i = Some (Inr f, s') \<longrightarrow>
      builder s' = builder s \<and> named_values s' = named_values s) \<and>
   (emit_fun up s name arg_ids free_ids local_ids bdy = (Inl err, s') \<and>
    get_func_type s (node_id bdy) arg_ids = Inr ft \<longrightarrow>
      builder s' = next_ref s \<and> named_values s' = Suc (next_ref s) \<and>
      (builder s < next_ref s \<longrightarrow> builder s' \<noteq> builder s) \<and>
      (named_values s < next_ref s \<longrightarrow> named_values s' \<noteq> named_values s))"
proof -
  have a: "emit_fun up s name arg_ids free_ids local_ids bdy = (Inr f, s') \<longrightarrow>
      builder s' = builder s \<and> named_values s' = named_values s"
    using emit_fun_discipline[of up s name arg_ids free_ids local_ids bdy "Inr f" s'] by simp
  have b: "emit_fun up s name arg_ids free_ids local_ids bdy = (Inl err, s') \<and>
    get_func_type s (node_id bdy) arg_ids = Inr ft \<longrightarrow>
      builder s' = next_ref s \<and> named_values s' = Suc (next_ref s)"
    using emit_fun_cases[of up s name arg_ids free_ids local_ids bdy] by auto
  show ?thesis
    using a b scope_discipline(1)[of up n s i "Inr f" s']
      scope_discipline(3)[of up n s proc "Inr f" s'] scope_discipline(4)[of up n s prog "Inr f" s']
    by auto
qed

text \<open>
  C4 as stated fails: emitting Proc 4, whose body throws, leaves the emitter with
  builder 2 and \<^verbatim>\<open>named_values\<close> array 3 instead of the builder 0 and array 1 of entry.
\<close>

theorem scope_failure_counterexample:
  "builder (initial_emitter example_ir) = 0 \<and>
   named_values (initial_emitter example_ir) = 1 \<and>
   map_option fst (emit_proc keep_all 0 (initial_emitter example_ir) example_failing_proc) =
     Some (Inl (NotImplemented ''visit if not implemented'')) \<and>
   map_option (builder \<circ> snd)
     (emit_proc keep_all 0 (initial_emitter example_ir) example_failing_proc) = Some 2 \<and>
   map_option (named_values \<circ> snd)
     (emit_proc keep_all 0 (initial_emitter example_ir) example_failing_proc) = Some 3"
  by (simp add: example_defs scope_eval_defs)

text \<open>
  C4, instances: the entry Proc of the example IR is emitted and both references are
  restored; a function whose body is an \<^verbatim>\<open>if\<close> fails and both are left replaced.
\<close>

theorem scope_builder_discipline_witness:
  "map_option fst (emit_proc keep_all 0 (initial_emitter example_ir) example_main) =
     Some (Inr (Function 0)) \<and>
   map_option (builder \<circ> snd) (emit_proc keep_all 0 (initial_emitter example_ir) example_main) =
     Some (builder (initial_emitter example_ir)) \<and>
   map_option (named_values \<circ> snd) (emit_proc keep_all 0 (initial_emitter example_ir) example_main) =
     Some (named_values (initial_emitter example_ir)) \<and>
   fst (emit_fun keep_all (initial_emitter example_ir) (Name ''main'') [] [] [] (IfNode 21)) =
     Inl (NotImplemented ''visit if not implemented'') \<and>
   builder (snd (emit_fun keep_all (initial_emitter example_ir) (Name ''main'') [] [] [] (IfNode 21))) = 2 \<and>
   named_values (snd (emit_fun keep_all (initial_emitter example_ir) (Name ''main'') [] [] [] (IfNode 21))) = 3"
proof -
  let ?s = "initial_emitter example_ir"
  let ?e = "emit_fun keep_all ?s (Name ''main'') [] [] [] (IfNode 21)"
  have ok: "map_option fst (emit_proc keep_all 0 ?s example_main) = Some (Inr (Function 0))"
    by (simp add: example_defs scope_eval_defs assignment_helper_def)
  then obtain s' where e: "emit_proc keep_all 0 ?s example_main = Some (Inr (Function 0), s')"
    by (cases "emit_proc keep_all 0 ?s example_main") auto
  have "builder s' = builder ?s \<and> named_values s' = named_values ?s"
    using scope_builder_discipline[where up = keep_all and n = 0 and s = ?s and proc = example_main
        and f = "Function 0" and s' = s'] e by simp
  then have p1: "map_option (builder \<circ> snd) (emit_proc keep_all 0 ?s example_main) = Some (builder ?s)
      \<and> map_option (named_values \<circ> snd) (emit_proc keep_all 0 ?s example_main) = Some (named_values ?s)"
    using e by simp
  have f: "fst ?e = Inl (NotImplemented ''visit if not implemented'')"
    by (simp add: example_defs scope_eval_defs)
  have g: "get_func_type ?s (node_id (IfNode 21)) [] = Inr (IntType 32, [ptr_t])"
    by (simp add: example_defs get_func_type_def llvm_type_of_id_def INT'_def ptr_t_def)
  have n: "next_ref ?s = 2"
    by (simp add: initial_emitter_def)
  have "builder (snd ?e) = 2 \<and> named_values (snd ?e) = 3"
    using scope_builder_discipline[where up = keep_all and s = ?s and name = "Name ''main''"
        and arg_ids = "[]" and free_ids = "[]" and local_ids = "[]" and bdy = "IfNode 21"
        and err = "NotImplemented ''visit if not implemented''" and s' = "snd ?e"
        and ft = "(IntType 32, [ptr_t])"] f g n
    by (simp add: prod_eq_iff)
  with ok p1 f show ?thesis by simp
qed

section \<open>Functions of the module\<close>

lemma has_function_build [simp]:
  "has_function (snd (build b i s)) k name ty = has_function s k name ty"
  by (auto simp: has_function_def build_def Let_def append_instr_def nth_list_update
      split: option.split)

lemma has_function_addFunction:
  "has_function s k name ty \<Longrightarrow> has_function (snd (addFunction name' ty' s)) k name ty"
  by (auto simp: has_function_def addFunction_def nth_append)

lemma has_function_addFunction_new:
  "has_function (snd (addFunction name ty s)) (length (mod' s)) name ty"
  by (simp add: has_function_def addFunction_def)

lemma addFunction_fst [simp]: "fst (addFunction name ty s) = length (mod' s)"
  by (simp add: addFunction_def)

lemma has_function_getOrInsertFunction:
  "has_function s k name ty \<Longrightarrow> has_function (snd (getOrInsertFunction name' ty' s)) k name ty"
  by (simp add: getOrInsertFunction_def has_function_addFunction split: option.split)

lemma has_function_appendBasicBlock [simp]:
  "has_function (appendBasicBlock f s) k name ty = has_function s k name ty"
  by (auto simp: has_function_def appendBasicBlock_def nth_list_update)

lemma has_function_heap [simp]:
  "has_function (snd (Builder_create s)) k name ty = has_function s k name ty"
  "has_function (positionAtEnd b f s) k name ty = has_function s k name ty"
  "has_function (Builder_free b s) k name ty = has_function s k name ty"
  "has_function (snd (new_array s)) k name ty = has_function s k name ty"
  "has_function (named_values_set i p s) k name ty = has_function s k name ty"
  "has_function (s\<lparr>builder := b\<rparr>) k name ty = has_function s k name ty"
  "has_function (s\<lparr>named_values := a\<rparr>) k name ty = has_function s k name ty"
  by (simp_all add: has_function_def Builder_create_def positionAtEnd_def Builder_free_def
      new_array_def named_values_set_def)

lemma has_function_emit_declaration:
  "has_function s k name ty \<Longrightarrow> has_function (emit_declaration d s) k name ty"
  by (simp add: emit_declaration_def Let_def case_prod_unfold has_function_addFunction
      has_function_getOrInsertFunction)

lemma has_function_emit_declarations:
  "has_function s k name ty \<Longrightarrow> has_function (emit_declarations ds s) k name ty"
  by (induction ds arbitrary: s) (simp_all add: has_function_emit_declaration)

lemma has_function_emit_runtime_declaration:
  "has_function s k name ty \<Longrightarrow> has_function (emit_runtime_declaration s) k name ty"
  by (simp add: emit_runtime_declaration_def has_function_emit_declarations)

lemma has_function_assignment_helper [simp]:
  "has_function (snd (assignment_helper s v i)) k name ty = has_function s k name ty"
  by (simp add: assignment_helper_def split: option.split)

lemma has_function_emit_lookup [simp]:
  "has_function (snd (emit_lookup s i)) k name ty = has_function s k name ty"
  by (simp add: emit_lookup_def Let_def emit_extern_def case_prod_unfold split: option.split)

lemma has_function_load_free_vals [simp]:
  "has_function (snd (load_free_vals is s)) k name ty = has_function s k name ty"
  by (induction "is" arbitrary: s) (simp_all add: case_prod_unfold split: option.split sum.split)

lemma has_function_insert_free_vals [simp]:
  "has_function (snd (insert_free_vals e vs i s)) k name ty = has_function s k name ty"
  by (induction vs arbitrary: e i s) (simp_all add: case_prod_unfold)

lemma has_function_pack_env [simp]:
  "has_function (snd (pack_env s scope)) k name ty = has_function s k name ty"
  by (simp add: pack_env_def case_prod_unfold split: sum.split)

lemma has_function_pack_closure [simp]:
  "has_function (snd (pack_closure s func scope ps)) k name ty = has_function s k name ty"
  by (simp add: pack_closure_def case_prod_unfold Let_def split: sum.split)

lemma has_function_emit_quote [simp]:
  "has_function (snd (emit_quote s i)) k name ty = has_function s k name ty"
  by (simp add: emit_quote_def Let_def split: option.split)

lemma has_function_emit_func [simp]:
  "has_function (snd (emit_func s i)) k name ty = has_function s k name ty"
  by (simp add: emit_func_def Let_def split: option.split)

lemma has_function_unpack_closure [simp]:
  "has_function (snd (unpack_closure s ft c)) k name ty = has_function s k name ty"
  by (simp add: unpack_closure_def case_prod_unfold)

lemma has_function_emit_args_aux:
  "(\<And>a s. a \<in> set ts \<Longrightarrow> has_function s k name ty \<Longrightarrow> has_function (snd (emit up s a)) k name ty) \<Longrightarrow>
   has_function s k name ty \<Longrightarrow> has_function (snd (emit_args up s ts)) k name ty"
  by (induction ts arbitrary: s) (simp_all add: case_prod_unfold split: sum.split)

lemma has_function_emit:
  "has_function s k name ty \<Longrightarrow> has_function (snd (emit up s t)) k name ty"
proof (induction t arbitrary: s)
  case (RootNode i cs)
  then show ?case
    by (cases cs) (simp_all add: has_function_emit_runtime_declaration)
next
  case (CallNode i f args)
  then show ?case
    by (simp add: case_prod_unfold has_function_emit_args_aux split: sum.split)
qed (simp_all add: case_prod_unfold Let_def split: sum.split option.split)

lemma has_function_loops [simp]:
  "has_function (alloca_args func as tys i s) k name ty = has_function s k name ty"
  "has_function (unpack_free env_ptr as tys i s) k name ty = has_function s k name ty"
  "has_function (snd (alloca_locals as s)) k name ty = has_function s k name ty"
proof -
  show "has_function (alloca_args func as tys i s) k name ty = has_function s k name ty"
    by (induction as arbitrary: i s) (simp_all add: case_prod_unfold)
  show "has_function (unpack_free env_ptr as tys i s) k name ty = has_function s k name ty"
    by (induction as arbitrary: i s) (simp_all add: case_prod_unfold)
  show "has_function (snd (alloca_locals as s)) k name ty = has_function s k name ty"
    by (induction as arbitrary: s) (simp_all add: case_prod_unfold split: sum.split)
qed

lemma emit_fun_has_function:
  "(case fst (emit_fun up s name arg_ids free_ids local_ids bdy) of
      Inl err \<Rightarrow> True
    | Inr f \<Rightarrow>
        (case get_func_type s (node_id bdy) arg_ids of
           Inl err \<Rightarrow> False
         | Inr ft \<Rightarrow>
             f = Function (length (mod' s)) \<and>
             has_function (snd (emit_fun up s name arg_ids free_ids local_ids bdy))
               (length (mod' s)) name (FunctionType (fst ft) (snd ft))))"
  by (simp add: emit_fun_def case_prod_unfold Let_def has_function_emit
      has_function_addFunction_new split: sum.split)

lemma llvm_types_of_ids_length:
  "llvm_types_of_ids c ids = Inr ts \<Longrightarrow> length ts = length ids"
  by (induction ids arbitrary: ts) (auto split: sum.splits)

lemma get_func_type_shape:
  "get_func_type s ret_id arg_ids = Inr ft \<Longrightarrow>
   \<exists>ats. snd ft = ats @ [ptr_t] \<and> llvm_types_of_ids (ir s) arg_ids = Inr ats \<and>
         length ats = length arg_ids \<and> llvm_type_of_id (ir s) ret_id = Inr (fst ft)"
  by (auto simp: get_func_type_def ptr_t_def llvm_types_of_ids_length split: sum.splits)

lemma emit_fun_signature:
  assumes "emit_fun up s name arg_ids free_ids local_ids bdy = (Inr f, s')"
  shows "\<exists>k ret ats. f = Function k \<and> has_function s' k name (FunctionType ret (ats @ [ptr_t])) \<and>
           llvm_types_of_ids (ir s) arg_ids = Inr ats \<and> length ats = length arg_ids \<and>
           llvm_type_of_id (ir s) (node_id bdy) = Inr ret"
proof -
  from assms emit_fun_has_function[where up = up and s = s and name = name and arg_ids = arg_ids
      and free_ids = free_ids and local_ids = local_ids and bdy = bdy]
  obtain ft where ft: "get_func_type s (node_id bdy) arg_ids = Inr ft"
    and f: "f = Function (length (mod' s))"
    and h: "has_function s' (length (mod' s)) name (FunctionType (fst ft) (snd ft))"
    by (auto split: sum.splits)
  from get_func_type_shape[OF ft] h f show ?thesis by auto
qed

section \<open>Arity of the emitted functions\<close>

lemma emit_proc_success:
  assumes "emit_proc up n s proc = Some (Inr f, s')"
  shows "\<exists>u s1. emit_subscopes up n s (children proc) = Some (Inr u, s1) \<and>
           emit_fun up s1 (case id' proc of None \<Rightarrow> Name ''main'' | Some i \<Rightarrow> procsym i)
             (params proc) (free proc) (bound_vars proc) (body proc) = (Inr f, s')"
  using assms by (auto simp: Let_def split: if_splits option.splits sum.splits prod.splits)

lemma emit_prog_success:
  assumes "emit_prog up n s prog = Some (Inr f, s')"
  shows "\<exists>u s1. emit_subscopes up n s (children prog) = Some (Inr u, s1) \<and>
           emit_fun up s1 (progsym (id' prog)) []
             (map escape_id (owned_persist prog) @ free prog) (bound_vars prog) (body prog) = (Inr f, s')"
  using assms by (auto simp: Let_def split: if_splits option.splits sum.splits prod.splits)

text \<open>
  C2. When \<^verbatim>\<open>emit_proc\<close> returns a function for a Proc, that function is in the module
  under the Proc's name with a type whose parameters are the lowered types of the
  Proc's parameters followed by one i8*: N+1 parameters for N, the last an i8*. When
  \<^verbatim>\<open>emit_prog\<close> returns a function for a Prog, its type has the single parameter i8*.
  Neither depends on the Proc having parameters or on the scope having free variables.
\<close>

theorem emitted_function_arity:
  "(emit_proc up n s proc = Some (Inr f, s') \<longrightarrow>
      (\<exists>k ret ats. f = Function k \<and>
         has_function s' k (case id' proc of None \<Rightarrow> Name ''main'' | Some i \<Rightarrow> procsym i)
           (FunctionType ret (ats @ [ptr_t])) \<and>
         length ats = length (params proc) \<and>
         llvm_types_of_ids (ir s) (params proc) = Inr ats \<and>
         llvm_type_of_id (ir s) (node_id (body proc)) = Inr ret)) \<and>
   (emit_prog up n s prog = Some (Inr f, s') \<longrightarrow>
      (\<exists>k ret. f = Function k \<and>
         has_function s' k (progsym (id' prog)) (FunctionType ret [ptr_t]) \<and>
         llvm_type_of_id (ir s) (node_id (body prog)) = Inr ret))"
proof (intro conjI impI)
  assume a: "emit_proc up n s proc = Some (Inr f, s')"
  from emit_proc_success[OF a] obtain u s1 where
    sub: "emit_subscopes up n s (children proc) = Some (Inr u, s1)" and
    ef: "emit_fun up s1 (case id' proc of None \<Rightarrow> Name ''main'' | Some i \<Rightarrow> procsym i)
             (params proc) (free proc) (bound_vars proc) (body proc) = (Inr f, s')"
    by blast
  have "ir s1 = ir s"
    using scope_discipline(2)[OF sub] by simp
  with emit_fun_signature[OF ef]
  show "\<exists>k ret ats. f = Function k \<and>
         has_function s' k (case id' proc of None \<Rightarrow> Name ''main'' | Some i \<Rightarrow> procsym i)
           (FunctionType ret (ats @ [ptr_t])) \<and>
         length ats = length (params proc) \<and>
         llvm_types_of_ids (ir s) (params proc) = Inr ats \<and>
         llvm_type_of_id (ir s) (node_id (body proc)) = Inr ret"
    by auto
next
  assume a: "emit_prog up n s prog = Some (Inr f, s')"
  from emit_prog_success[OF a] obtain u s1 where
    sub: "emit_subscopes up n s (children prog) = Some (Inr u, s1)" and
    ef: "emit_fun up s1 (progsym (id' prog)) []
             (map escape_id (owned_persist prog) @ free prog) (bound_vars prog) (body prog) = (Inr f, s')"
    by blast
  have "ir s1 = ir s"
    using scope_discipline(2)[OF sub] by simp
  with emit_fun_signature[OF ef]
  show "\<exists>k ret. f = Function k \<and>
         has_function s' k (progsym (id' prog)) (FunctionType ret [ptr_t]) \<and>
         llvm_type_of_id (ir s) (node_id (body prog)) = Inr ret"
    by auto
qed

section \<open>Evaluating the binding on concrete states\<close>

lemma build_heap [simp]:
  "mod' (snd (build b i s)) =
     (case builder_pos s b of None \<Rightarrow> mod' s | Some f \<Rightarrow> append_instr f (next_inst s, i) (mod' s))"
  "builder_pos (snd (build b i s)) = builder_pos s"
  "builder_freed (snd (build b i s)) = builder_freed s"
  "arrays (snd (build b i s)) = arrays s"
  "next_ref (snd (build b i s)) = next_ref s"
  by (simp_all add: build_def Let_def split: option.split)

lemma addFunction_heap [simp]:
  "mod' (snd (addFunction name ty s)) = mod' s @ [\<lparr>fn_name = name, fn_type = ty, fn_entry = None\<rparr>]"
  "builder_pos (snd (addFunction name ty s)) = builder_pos s"
  "builder_freed (snd (addFunction name ty s)) = builder_freed s"
  "arrays (snd (addFunction name ty s)) = arrays s"
  "next_inst (snd (addFunction name ty s)) = next_inst s"
  by (simp_all add: addFunction_def)

lemma appendBasicBlock_heap [simp]:
  "mod' (appendBasicBlock f s) =
     (if f < length (mod' s)
      then (mod' s)[f := (mod' s ! f)\<lparr>fn_entry :=
              (case fn_entry (mod' s ! f) of None \<Rightarrow> Some [] | Some b \<Rightarrow> Some b)\<rparr>]
      else mod' s)"
  "builder_pos (appendBasicBlock f s) = builder_pos s"
  "builder_freed (appendBasicBlock f s) = builder_freed s"
  "arrays (appendBasicBlock f s) = arrays s"
  "next_inst (appendBasicBlock f s) = next_inst s"
  by (simp_all add: appendBasicBlock_def)

lemma Builder_create_heap [simp]:
  "mod' (snd (Builder_create s)) = mod' s"
  "builder_pos (snd (Builder_create s)) = (builder_pos s)(next_ref s := None)"
  "builder_freed (snd (Builder_create s)) = (builder_freed s)(next_ref s := False)"
  "arrays (snd (Builder_create s)) = arrays s"
  "next_inst (snd (Builder_create s)) = next_inst s"
  by (simp_all add: Builder_create_def)

lemma positionAtEnd_heap [simp]:
  "mod' (positionAtEnd b f s) = mod' s"
  "builder_pos (positionAtEnd b f s) = (builder_pos s)(b \<mapsto> f)"
  "builder_freed (positionAtEnd b f s) = builder_freed s"
  "arrays (positionAtEnd b f s) = arrays s"
  "next_inst (positionAtEnd b f s) = next_inst s"
  by (simp_all add: positionAtEnd_def)

lemma Builder_free_heap [simp]:
  "mod' (Builder_free b s) = mod' s"
  "builder_pos (Builder_free b s) = builder_pos s"
  "builder_freed (Builder_free b s) = (builder_freed s)(b := True)"
  "arrays (Builder_free b s) = arrays s"
  "next_ref (Builder_free b s) = next_ref s"
  "next_inst (Builder_free b s) = next_inst s"
  by (simp_all add: Builder_free_def)

lemma new_array_heap [simp]:
  "mod' (snd (new_array s)) = mod' s"
  "builder_pos (snd (new_array s)) = builder_pos s"
  "builder_freed (snd (new_array s)) = builder_freed s"
  "arrays (snd (new_array s)) = (arrays s)(next_ref s := Map.empty)"
  "next_ref (snd (new_array s)) = Suc (next_ref s)"
  "next_inst (snd (new_array s)) = next_inst s"
  by (simp_all add: new_array_def)

lemma named_values_set_heap [simp]:
  "mod' (named_values_set i p s) = mod' s"
  "builder_pos (named_values_set i p s) = builder_pos s"
  "builder_freed (named_values_set i p s) = builder_freed s"
  "arrays (named_values_set i p s) =
     (arrays s)(named_values s := (arrays s (named_values s))(i \<mapsto> p))"
  "next_ref (named_values_set i p s) = next_ref s"
  "next_inst (named_values_set i p s) = next_inst s"
  by (simp_all add: named_values_set_def)

lemmas eval_defs = emit_fun_def get_func_type_def llvm_type_of_id_def bound_vars_def
  case_prod_unfold INT'_def FLOAT_def specialized_proc_def specialized_prog_def
  assignment_helper_def append_instr_def

text \<open>
  C2, instances: Proc 6 with two parameters, the entry Proc with none, and Prog 2.
\<close>

theorem emitted_function_arity_witness:
  "map_option fst (emit_proc keep_all 0 (initial_emitter example_ir) example_fun_proc) =
     Some (Inr (Function 0)) \<and>
   map_option (fn_type \<circ> hd \<circ> mod' \<circ> snd)
     (emit_proc keep_all 0 (initial_emitter example_ir) example_fun_proc) =
     Some (FunctionType (IntType 32) [IntType 32, DoubleType, ptr_t]) \<and>
   map_option fst (emit_proc keep_all 0 (initial_emitter example_ir) example_main) =
     Some (Inr (Function 0)) \<and>
   map_option (fn_type \<circ> hd \<circ> mod' \<circ> snd)
     (emit_proc keep_all 0 (initial_emitter example_ir) example_main) =
     Some (FunctionType (IntType 32) [ptr_t]) \<and>
   map_option fst (emit_prog keep_all 0 (initial_emitter example_ir) example_prog) =
     Some (Inr (Function 0)) \<and>
   map_option (fn_type \<circ> hd \<circ> mod' \<circ> snd)
     (emit_prog keep_all 0 (initial_emitter example_ir) example_prog) =
     Some (FunctionType DoubleType [ptr_t])"
proof -
  let ?s = "initial_emitter example_ir"
  have hd0: "\<And>s k name ty. has_function s 0 name ty \<Longrightarrow> fn_type (hd (mod' s)) = ty"
    by (auto simp: has_function_def hd_conv_nth)
  have t1: "llvm_types_of_ids (ir ?s) (params example_fun_proc) = Inr [IntType 32, DoubleType]"
    and r1: "llvm_type_of_id (ir ?s) (node_id (body example_fun_proc)) = Inr (IntType 32)"
    and r2: "llvm_type_of_id (ir ?s) (node_id (body example_main)) = Inr (IntType 32)"
    and p2: "params example_main = []"
    and r3: "llvm_type_of_id (ir ?s) (node_id (body example_prog)) = Inr DoubleType"
    by (simp_all add: example_defs llvm_type_of_id_def INT'_def FLOAT_def)
  have ok1: "map_option fst (emit_proc keep_all 0 ?s example_fun_proc) = Some (Inr (Function 0))"
    by (simp add: example_defs eval_defs)
  then obtain s1 where e1: "emit_proc keep_all 0 ?s example_fun_proc = Some (Inr (Function 0), s1)"
    by (cases "emit_proc keep_all 0 ?s example_fun_proc") auto
  have w1: "fn_type (hd (mod' s1)) = FunctionType (IntType 32) [IntType 32, DoubleType, ptr_t]"
    using emitted_function_arity[where up = keep_all and n = 0 and s = ?s
        and proc = example_fun_proc and f = "Function 0" and s' = s1] e1 t1 r1
    by (auto dest: hd0)
  have ok2: "map_option fst (emit_proc keep_all 0 ?s example_main) = Some (Inr (Function 0))"
    by (simp add: example_defs eval_defs)
  then obtain s2 where e2: "emit_proc keep_all 0 ?s example_main = Some (Inr (Function 0), s2)"
    by (cases "emit_proc keep_all 0 ?s example_main") auto
  have w2: "fn_type (hd (mod' s2)) = FunctionType (IntType 32) [ptr_t]"
    using emitted_function_arity[where up = keep_all and n = 0 and s = ?s
        and proc = example_main and f = "Function 0" and s' = s2] e2 r2 p2
    by (auto dest: hd0)
  have ok3: "map_option fst (emit_prog keep_all 0 ?s example_prog) = Some (Inr (Function 0))"
    by (simp add: example_defs eval_defs)
  then obtain s3 where e3: "emit_prog keep_all 0 ?s example_prog = Some (Inr (Function 0), s3)"
    by (cases "emit_prog keep_all 0 ?s example_prog") auto
  have w3: "fn_type (hd (mod' s3)) = FunctionType DoubleType [ptr_t]"
    using emitted_function_arity[where up = keep_all and n = 0 and s = ?s
        and prog = example_prog and f = "Function 0" and s' = s3] e3 r3
    by (auto dest: hd0)
  show ?thesis
    using ok1 ok2 ok3 w1 w2 w3 e1 e2 e3 by simp
qed

section \<open>The runtime prelude\<close>

lemma find_function_None: "find_function fs name i = None \<longleftrightarrow> name \<notin> set (map fn_name fs)"
  by (induction fs arbitrary: i) auto

lemma find_function_append:
  "name \<notin> set (map fn_name xs) \<Longrightarrow>
   find_function (xs @ ys) name i = find_function ys name (i + length xs)"
  by (induction xs arbitrary: i) auto

lemma emit_declaration_mod:
  assumes "Name name \<notin> set (map fn_name (mod' s))"
  shows "mod' (emit_declaration (name, ret_type, arg_types) s) =
           mod' s @ expected_prelude [(name, ret_type, arg_types)] (length (mod' s)) (next_inst s)"
    and "next_inst (emit_declaration (name, ret_type, arg_types) s) = Suc (Suc (next_inst s))"
proof -
  have g: "\<And>ty. getOrInsertFunction (Name name) ty s = addFunction (Name name) ty s"
    using assms find_function_None[of "mod' s" "Name name" 0]
    by (simp add: getOrInsertFunction_def)
  show "mod' (emit_declaration (name, ret_type, arg_types) s) =
           mod' s @ expected_prelude [(name, ret_type, arg_types)] (length (mod' s)) (next_inst s)"
    by (simp add: emit_declaration_def g Let_def case_prod_unfold append_instr_def nth_append
        list_update_append)
  show "next_inst (emit_declaration (name, ret_type, arg_types) s) = Suc (Suc (next_inst s))"
    by (simp add: emit_declaration_def g Let_def case_prod_unfold)
qed

lemma emit_declarations_mod:
  "fresh_names (map fn_name (mod' s)) ds \<Longrightarrow>
   mod' (emit_declarations ds s) = mod' s @ expected_prelude ds (length (mod' s)) (next_inst s)"
proof (induction ds arbitrary: s)
  case Nil
  then show ?case by simp
next
  case (Cons d ds)
  obtain name ret_type arg_types where d: "d = (name, ret_type, arg_types)"
    by (cases d)
  from Cons.prems d have fr: "Name name \<notin> set (map fn_name (mod' s))"
    and rest: "fresh_names (map fn_name (mod' s) @ [Name name, Name (name @ ''_wrapper'')]) ds"
    by simp_all
  let ?s1 = "emit_declaration d s"
  have m1: "mod' ?s1 = mod' s @ expected_prelude [(name, ret_type, arg_types)] (length (mod' s)) (next_inst s)"
    and n1: "next_inst ?s1 = Suc (Suc (next_inst s))"
    using emit_declaration_mod[OF fr] d by simp_all
  have "fresh_names (map fn_name (mod' ?s1)) ds"
    using rest m1 by simp
  from Cons.IH[OF this] m1 n1 d show ?case by simp
qed

lemma runtime_declarations_abi: "runtime_declarations = runtime_abi"
  by (simp add: runtime_declarations_def runtime_abi_def int_t_def ptr_t_def void_t_def)

lemma expected_prelude_lookup:
  assumes "fresh_names (map fn_name xs) ds" and "i < length ds" and "ds ! i = (name, ret_type, arg_types)"
  shows "find_function (xs @ expected_prelude ds (length xs) n) (Name name) 0 = Some (length xs + 2 * i) \<and>
         (xs @ expected_prelude ds (length xs) n) ! (length xs + 2 * i) =
           \<lparr>fn_name = Name name, fn_type = FunctionType ret_type arg_types, fn_entry = None\<rparr> \<and>
         find_function (xs @ expected_prelude ds (length xs) n) (Name (name @ ''_wrapper'')) 0 =
           Some (Suc (length xs + 2 * i)) \<and>
         (xs @ expected_prelude ds (length xs) n) ! Suc (length xs + 2 * i) =
           \<lparr>fn_name = Name (name @ ''_wrapper''), fn_type = FunctionType ret_type (arg_types @ [ptr_t]),
            fn_entry = Some [(n + 2 * i,
                              Call (Function (length xs + 2 * i))
                                (map (Param (Suc (length xs + 2 * i))) [0 ..< length arg_types]) (Name [])),
                             (Suc (n + 2 * i),
                              if ret_type = void_t then RetVoid else Ret (Inst (n + 2 * i)))]\<rparr>"
  using assms
proof (induction ds arbitrary: xs n i)
  case Nil
  then show ?case by simp
next
  case (Cons d ds)
  obtain name0 ret0 args0 where d: "d = (name0, ret0, args0)"
    by (cases d)
  from Cons.prems(1) d have f0: "Name name0 \<notin> set (map fn_name xs)"
    and w0: "Name (name0 @ ''_wrapper'') \<notin> set (map fn_name xs)"
    and rest: "fresh_names (map fn_name xs @ [Name name0, Name (name0 @ ''_wrapper'')]) ds"
    by simp_all
  show ?case
  proof (cases i)
    case 0
    with Cons.prems(3) d have eq: "name0 = name" "ret0 = ret_type" "args0 = arg_types"
      by simp_all
    show ?thesis
      using f0 w0 by (simp add: 0 d eq find_function_append nth_append)
  next
    case (Suc j)
    let ?xs = "xs @ [\<lparr>fn_name = Name name0, fn_type = FunctionType ret0 args0, fn_entry = None\<rparr>,
        \<lparr>fn_name = Name (name0 @ ''_wrapper''), fn_type = FunctionType ret0 (args0 @ [ptr_t]),
         fn_entry = Some [(n, Call (Function (length xs)) (map (Param (Suc (length xs))) [0 ..< length args0]) (Name [])),
                          (Suc n, if ret0 = void_t then RetVoid else Ret (Inst n))]\<rparr>]"
    have fr: "fresh_names (map fn_name ?xs) ds"
      using rest by simp
    have j: "j < length ds" and dj: "ds ! j = (name, ret_type, arg_types)"
      using Cons.prems(2,3) Suc by simp_all
    have m: "xs @ expected_prelude (d # ds) (length xs) n =
        ?xs @ expected_prelude ds (length ?xs) (Suc (Suc n))"
      by (simp add: d)
    have l: "length ?xs + 2 * j = length xs + 2 * i" "Suc (Suc n) + 2 * j = n + 2 * i"
      using Suc by simp_all
    from Cons.IH[OF fr j dj, of "Suc (Suc n)"] show ?thesis
      unfolding m l .
  qed
qed

text \<open>
  C8. The code's table is the runtime ABI table of the specification, with ten names.
  In a module where none of these names nor their wrapper names is in use, after
  \<^verbatim>\<open>emit_runtime_declaration\<close> each name of the table is found as a bare declaration (no
  body) with its listed signature, and \<^verbatim>\<open><name>_wrapper\<close> is found as a function whose
  signature appends one i8*, and whose body is one call of the bare function with the
  wrapper's leading parameters, in order and without the trailing one, followed by
  \<^verbatim>\<open>ret void\<close> exactly when the return type is void and by a return of the call's value
  otherwise.
\<close>

theorem runtime_prelude:
  assumes "\<forall>name \<in> set (map fst runtime_abi).
             Name name \<notin> set (map fn_name (mod' s)) \<and>
             Name (name @ ''_wrapper'') \<notin> set (map fn_name (mod' s))"
  shows "runtime_declarations = runtime_abi \<and> length runtime_abi = 10 \<and>
     (\<forall>i < length runtime_abi.
        (case runtime_abi ! i of (name, ret_type, arg_types) \<Rightarrow>
           (let m = mod' (emit_runtime_declaration s);
                d = length (mod' s) + 2 * i;
                w = Suc d;
                n = next_inst s + 2 * i
            in find_function m (Name name) 0 = Some d \<and>
               fn_type (m ! d) = FunctionType ret_type arg_types \<and>
               fn_entry (m ! d) = None \<and>
               find_function m (Name (name @ ''_wrapper'')) 0 = Some w \<and>
               fn_type (m ! w) = FunctionType ret_type (arg_types @ [ptr_t]) \<and>
               fn_entry (m ! w) =
                 Some [(n, Call (Function d) (map (Param w) [0 ..< length arg_types]) (Name [])),
                       (Suc n, if ret_type = void_t then RetVoid else Ret (Inst n))])))"
proof -
  have fr: "fresh_names (map fn_name (mod' s)) runtime_abi"
    using assms by (simp add: runtime_abi_def)
  have m: "mod' (emit_runtime_declaration s) =
      mod' s @ expected_prelude runtime_abi (length (mod' s)) (next_inst s)"
    using fr by (simp add: emit_runtime_declaration_def runtime_declarations_abi emit_declarations_mod)
  have ten: "length runtime_abi = 10"
    by (simp add: runtime_abi_def)
  have "\<And>i name ret_type arg_types. i < length runtime_abi \<Longrightarrow>
      runtime_abi ! i = (name, ret_type, arg_types) \<Longrightarrow>
      (let m = mod' (emit_runtime_declaration s);
           d = length (mod' s) + 2 * i;
           w = Suc d;
           n = next_inst s + 2 * i
       in find_function m (Name name) 0 = Some d \<and>
          fn_type (m ! d) = FunctionType ret_type arg_types \<and>
          fn_entry (m ! d) = None \<and>
          find_function m (Name (name @ ''_wrapper'')) 0 = Some w \<and>
          fn_type (m ! w) = FunctionType ret_type (arg_types @ [ptr_t]) \<and>
          fn_entry (m ! w) =
            Some [(n, Call (Function d) (map (Param w) [0 ..< length arg_types]) (Name [])),
                  (Suc n, if ret_type = void_t then RetVoid else Ret (Inst n))])"
    using expected_prelude_lookup[OF fr, of _ _ _ _ "next_inst s"]
    unfolding m Let_def by simp
  note key = this
  have "\<forall>i < length runtime_abi.
        (case runtime_abi ! i of (name, ret_type, arg_types) \<Rightarrow>
           (let m = mod' (emit_runtime_declaration s);
                d = length (mod' s) + 2 * i;
                w = Suc d;
                n = next_inst s + 2 * i
            in find_function m (Name name) 0 = Some d \<and>
               fn_type (m ! d) = FunctionType ret_type arg_types \<and>
               fn_entry (m ! d) = None \<and>
               find_function m (Name (name @ ''_wrapper'')) 0 = Some w \<and>
               fn_type (m ! w) = FunctionType ret_type (arg_types @ [ptr_t]) \<and>
               fn_entry (m ! w) =
                 Some [(n, Call (Function d) (map (Param w) [0 ..< length arg_types]) (Name [])),
                       (Suc n, if ret_type = void_t then RetVoid else Ret (Inst n))]))"
  proof (intro allI impI)
    fix i
    assume lt: "i < length runtime_abi"
    obtain name ret_type arg_types where e: "runtime_abi ! i = (name, ret_type, arg_types)"
      by (cases "runtime_abi ! i")
    show "case runtime_abi ! i of (name, ret_type, arg_types) \<Rightarrow>
           (let m = mod' (emit_runtime_declaration s);
                d = length (mod' s) + 2 * i;
                w = Suc d;
                n = next_inst s + 2 * i
            in find_function m (Name name) 0 = Some d \<and>
               fn_type (m ! d) = FunctionType ret_type arg_types \<and>
               fn_entry (m ! d) = None \<and>
               find_function m (Name (name @ ''_wrapper'')) 0 = Some w \<and>
               fn_type (m ! w) = FunctionType ret_type (arg_types @ [ptr_t]) \<and>
               fn_entry (m ! w) =
                 Some [(n, Call (Function d) (map (Param w) [0 ..< length arg_types]) (Name [])),
                       (Suc n, if ret_type = void_t then RetVoid else Ret (Inst n))])"
      unfolding e prod.case by (rule key[OF lt e])
  qed
  with runtime_declarations_abi ten show ?thesis
    by blast
qed

text \<open>
  C8, instances: \<^verbatim>\<open>draw_mesh\<close>, which returns void, and \<^verbatim>\<open>load_obj\<close>, which returns a
  pointer, in the prelude emitted into an empty module.
\<close>

theorem runtime_prelude_witness:
  "find_function (mod' (emit_runtime_declaration (initial_emitter example_ir))) (Name ''draw_mesh'') 0 =
     Some 8 \<and>
   fn_type (mod' (emit_runtime_declaration (initial_emitter example_ir)) ! 8) =
     FunctionType VoidTy [IntType 32, IntType 32] \<and>
   fn_entry (mod' (emit_runtime_declaration (initial_emitter example_ir)) ! 8) = None \<and>
   find_function (mod' (emit_runtime_declaration (initial_emitter example_ir)))
     (Name ''draw_mesh_wrapper'') 0 = Some 9 \<and>
   fn_type (mod' (emit_runtime_declaration (initial_emitter example_ir)) ! 9) =
     FunctionType VoidTy [IntType 32, IntType 32, PointerType (IntType 8) 0] \<and>
   fn_entry (mod' (emit_runtime_declaration (initial_emitter example_ir)) ! 9) =
     Some [(8, Call (Function 8) [Param 9 0, Param 9 1] (Name [])), (9, RetVoid)] \<and>
   find_function (mod' (emit_runtime_declaration (initial_emitter example_ir))) (Name ''load_obj'') 0 =
     Some 16 \<and>
   fn_type (mod' (emit_runtime_declaration (initial_emitter example_ir)) ! 17) =
     FunctionType (PointerType (IntType 8) 0)
       [PointerType (IntType 8) 0, PointerType (IntType 8) 0, PointerType (IntType 8) 0] \<and>
   fn_entry (mod' (emit_runtime_declaration (initial_emitter example_ir)) ! 17) =
     Some [(16, Call (Function 16) [Param 17 0, Param 17 1] (Name [])), (17, Ret (Inst 16))]"
proof -
  let ?s = "initial_emitter example_ir"
  have h: "\<forall>name \<in> set (map fst runtime_abi).
             Name name \<notin> set (map fn_name (mod' ?s)) \<and>
             Name (name @ ''_wrapper'') \<notin> set (map fn_name (mod' ?s))"
    by (simp add: initial_emitter_def)
  have m: "mod' ?s = []" "next_inst ?s = 0"
    by (simp_all add: initial_emitter_def)
  have a4: "runtime_abi ! 4 = (''draw_mesh'', VoidTy, [IntType 32, IntType 32])"
    and a8: "runtime_abi ! 8 =
      (''load_obj'', PointerType (IntType 8) 0, [PointerType (IntType 8) 0, PointerType (IntType 8) 0])"
    by (simp_all add: runtime_abi_def)
  have up: "[0 ..< 2] = [0, Suc 0]"
    by (simp add: upt_rec)
  have lt: "4 < length runtime_abi" "8 < length runtime_abi"
    by (simp_all add: runtime_abi_def)
  note every = runtime_prelude[OF h, THEN conjunct2, THEN conjunct2, rule_format]
  note r4 = every[OF lt(1)] and r8 = every[OF lt(2)]
  have n4: "find_function (mod' (emit_runtime_declaration ?s)) (Name ''draw_mesh'') 0 = Some 8 \<and>
      fn_type (mod' (emit_runtime_declaration ?s) ! 8) = FunctionType VoidTy [IntType 32, IntType 32] \<and>
      fn_entry (mod' (emit_runtime_declaration ?s) ! 8) = None \<and>
      find_function (mod' (emit_runtime_declaration ?s)) (Name ''draw_mesh_wrapper'') 0 = Some 9 \<and>
      fn_type (mod' (emit_runtime_declaration ?s) ! 9) =
        FunctionType VoidTy [IntType 32, IntType 32, PointerType (IntType 8) 0] \<and>
      fn_entry (mod' (emit_runtime_declaration ?s) ! 9) =
        Some [(8, Call (Function 8) [Param 9 0, Param 9 1] (Name [])), (9, RetVoid)]"
    using r4 unfolding a4 prod.case Let_def m
    by (simp add: ptr_t_def void_t_def up)
  have n8: "find_function (mod' (emit_runtime_declaration ?s)) (Name ''load_obj'') 0 = Some 16 \<and>
      fn_type (mod' (emit_runtime_declaration ?s) ! 17) =
        FunctionType (PointerType (IntType 8) 0)
          [PointerType (IntType 8) 0, PointerType (IntType 8) 0, PointerType (IntType 8) 0] \<and>
      fn_entry (mod' (emit_runtime_declaration ?s) ! 17) =
        Some [(16, Call (Function 16) [Param 17 0, Param 17 1] (Name [])), (17, Ret (Inst 16))]"
    using r8 unfolding a8 prod.case Let_def m
    by (simp add: ptr_t_def void_t_def up)
  show ?thesis
    using n4 n8 by simp
qed

lemmas closure_eval_defs = pack_env_def pack_closure_def emit_quote_def emit_func_def
  getFunction_def get_env_type_def

section \<open>Layout of the environment struct\<close>

text \<open>
  C1 at Prog 8, which owns persist 5 and has the free variable 3, quoted by the entry
  Proc. \<^verbatim>\<open>get_env_type\<close> gives the packed struct of the free variable alone, and the entry
  Proc packs exactly that: instructions 13 and 14 build and allocate \<open>{i32}\<close>. The
  function of Prog 8 casts its environment parameter to a pointer to \<open>{double, i32}\<close>
  (instruction 0) and reads field 0 for the persist and field 1 for the free variable.
  The layout packed is not the layout read back.
\<close>

theorem env_layout_mismatch:
  "owned_persist example_owned_prog = [ProgEscape 5] \<and>
   free example_owned_prog = [3] \<and>
   persist example_owned_prog = [] \<and>
   progs example_ir 8 = Some example_owned_prog \<and>
   get_env_type (initial_emitter example_ir) example_owned_prog =
     Inr (StructType [IntType 32] True) \<and>
   map_option (mod' \<circ> snd)
     (emit_proc keep_all 1 (initial_emitter example_ir) example_quote_main) =
     Some
      [\<lparr>fn_name = progsym (Some 8),
        fn_type = FunctionType (IntType 32) [PointerType (IntType 8) 0],
        fn_entry = Some
        [(0, BitCast (Param 0 0) (PointerType (StructType [DoubleType, IntType 32] True) 0) (Name [])),
         (1, Alloca DoubleType (varsym 5)),
         (2, StructGEP (Inst 0) 0 (Name [])),
         (3, Load (Inst 2) (Name [])),
         (4, Store (Inst 3) (Inst 1)),
         (5, Alloca (IntType 32) (varsym 3)),
         (6, StructGEP (Inst 0) 1 (Name [])),
         (7, Load (Inst 6) (Name [])),
         (8, Store (Inst 7) (Inst 5)),
         (9, Ret (ConstInt (NumberValue 1) (IntType 32)))]\<rparr>,
       \<lparr>fn_name = Name ''main'',
        fn_type = FunctionType
                    (StructType
                       [PointerType (FunctionType (IntType 32) [PointerType (IntType 8) 0]) 0,
                        PointerType (IntType 8) 0] True)
                    [PointerType (IntType 8) 0],
        fn_entry = Some
        [(10, BitCast (Param 1 0) (PointerType (StructType [] True) 0) (Name [])),
         (11, Alloca (IntType 32) (varsym 3)),
         (12, Load (Inst 11) (Name [])),
         (13, InsertValue (Undef (StructType [IntType 32] True)) (Inst 12) 0 (Name [])),
         (14, Alloca (StructType [IntType 32] True) (Name ''envptr'')),
         (15, Store (Inst 13) (Inst 14)),
         (16, BitCast (Inst 14) (PointerType (IntType 8) 0) (Name ''envptr_hidden'')),
         (17, InsertValue
                (Undef (StructType
                          [PointerType (FunctionType (IntType 32) [PointerType (IntType 8) 0]) 0,
                           PointerType (IntType 8) 0] True))
                (Function 0) 0 (Name [])),
         (18, InsertValue (Inst 17) (Inst 16) 1 (Name [])),
         (19, Ret (Inst 18))]\<rparr>]"
  by (simp add: example_defs eval_defs closure_eval_defs)

end
